theory Spec2Isabelle
  imports Complex_Main "HOL-Library.Word" "HOL-Library.Multiset" "HOL-Library.Option_ord"
begin

section \<open>JavaScript values\<close>

text \<open>
  A JavaScript string is a sequence of UTF-16 code units. Dates are milliseconds since the
  epoch. Counts, and the page and limit inside the service, are integer-valued JavaScript
  numbers; they are modelled as mathematical integers, which agrees with the double
  arithmetic of the source as long as the values stay below \<open>2^53\<close>. A number read
  from a query string is modelled as the double it is (\<open>toNumber\<close> below).
\<close>

type_synonym jschar = "16 word"
type_synonym jsstring = "jschar list"
type_synonym date = int

text \<open>Source literals: every character of a literal of the source is a Latin-1 character,
  whose UTF-16 code unit is its Latin-1 code.\<close>

definition js :: "string \<Rightarrow> jsstring" where
  "js s = map (\<lambda>c. of_nat (of_char c)) s"

text \<open>Object literals and JSON bodies. An object is the list of its fields, in the order
  in which the source writes them.\<close>

datatype jval =
    JNull
  | JBool bool
  | JNum int
  | JStr jsstring
  | JDate date
  | JArr "jval list"
  | JObj "(string \<times> jval) list"

text \<open>Every field name that occurs in a value, at any depth.\<close>

fun fieldNames :: "jval \<Rightarrow> string list" where
  "fieldNames (JArr vs) = concat (map fieldNames vs)"
| "fieldNames (JObj kvs) = concat (map (\<lambda>(k, v). k # fieldNames v) kvs)"
| "fieldNames _ = []"

section \<open>Errors and the response envelope\<close>

text \<open>\<open>class AppError\<close> of \<open>middleware/errorHandler.ts\<close>.\<close>

record app_error =
  message :: jsstring
  statusCode :: nat
  isOperational :: bool

definition AppError :: "jsstring \<Rightarrow> nat \<Rightarrow> app_error" where
  "AppError m c = \<lparr>message = m, statusCode = c, isOperational = True\<rparr>"

text \<open>What \<open>res.status(code).json(body)\<close> sends.\<close>

record http_response =
  status :: nat
  body :: jval

text \<open>\<open>enum HttpStatus\<close> of \<open>types/index.ts\<close>.\<close>

definition HttpStatus_OK :: nat where "HttpStatus_OK = 200"
definition HttpStatus_CREATED :: nat where "HttpStatus_CREATED = 201"
definition HttpStatus_BAD_REQUEST :: nat where "HttpStatus_BAD_REQUEST = 400"
definition HttpStatus_FORBIDDEN :: nat where "HttpStatus_FORBIDDEN = 403"
definition HttpStatus_NOT_FOUND :: nat where "HttpStatus_NOT_FOUND = 404"

text \<open>
  \<open>class ApiResponseUtil\<close>. The argument \<open>ts\<close> is the clock reading of
  \<open>new Date().toISOString()\<close>. A field whose value is \<open>undefined\<close> is not
  serialised.
\<close>

definition optField :: "string \<Rightarrow> jval option \<Rightarrow> (string \<times> jval) list" where
  "optField k v = (case v of None \<Rightarrow> [] | Some x \<Rightarrow> [(k, x)])"

definition ApiResponseUtil_success ::
  "date \<Rightarrow> jval option \<Rightarrow> string \<Rightarrow> nat \<Rightarrow> http_response" where
  "ApiResponseUtil_success ts dat msg code =
     \<lparr>status = code,
      body = JObj ([(''success'', JBool True), (''message'', JStr (js msg))]
                   @ optField ''data'' dat @ [(''timestamp'', JDate ts)])\<rparr>"

definition ApiResponseUtil_error ::
  "date \<Rightarrow> string \<Rightarrow> nat \<Rightarrow> jsstring option \<Rightarrow> http_response" where
  "ApiResponseUtil_error ts msg code err =
     \<lparr>status = code,
      body = JObj ([(''success'', JBool False), (''message'', JStr (js msg))]
                   @ optField ''error'' (map_option JStr err) @ [(''timestamp'', JDate ts)])\<rparr>"

definition ApiResponseUtil_created :: "date \<Rightarrow> jval option \<Rightarrow> string \<Rightarrow> http_response" where
  "ApiResponseUtil_created ts dat msg = ApiResponseUtil_success ts dat msg HttpStatus_CREATED"

definition ApiResponseUtil_notFound :: "date \<Rightarrow> string \<Rightarrow> http_response" where
  "ApiResponseUtil_notFound ts msg = ApiResponseUtil_error ts msg HttpStatus_NOT_FOUND None"

definition ApiResponseUtil_badRequest :: "date \<Rightarrow> string \<Rightarrow> jsstring option \<Rightarrow> http_response" where
  "ApiResponseUtil_badRequest ts msg err = ApiResponseUtil_error ts msg HttpStatus_BAD_REQUEST err"

definition ApiResponseUtil_forbidden :: "date \<Rightarrow> string \<Rightarrow> http_response" where
  "ApiResponseUtil_forbidden ts msg = ApiResponseUtil_error ts msg HttpStatus_FORBIDDEN None"

section \<open>The access counter\<close>

subsection \<open>The collection \<open>access_counter\<close>\<close>

text \<open>
  \<open>interface IAccessCounter\<close>. The collection is the list of its documents in natural
  order; nothing in the schema limits it to one document. \<open>createdAt\<close> and
  \<open>updatedAt\<close> are optional: Mongoose's \<open>timestamps\<close> option writes them, a document
  inserted by other means may lack them.
\<close>

record timestamps =
  createdAt :: "date option"
  updatedAt :: "date option"

record counter_doc = timestamps +
  count :: int
  lastUpdated :: date

type_synonym counter_store = "counter_doc list"

text \<open>
  \<open>AccessCounterSchema.statics.incrementCounter\<close>: one \<open>findOneAndUpdate\<close> with the empty
  filter, \<open>$inc: {count: 1}\<close>, \<open>$set: {lastUpdated: new Date()}\<close> and the options
  \<open>new\<close> and \<open>upsert\<close>. The empty filter selects the first document; without one,
  the upsert inserts the document the update describes. The \<open>timestamps\<close> option adds
  \<open>updatedAt\<close> to the update and \<open>createdAt\<close> to the insertion. The call is one
  transition of the store, and with \<open>new\<close> and \<open>upsert\<close> it always returns a
  document.
\<close>

definition AccessCounter_incrementCounter ::
  "date \<Rightarrow> counter_store \<Rightarrow> counter_doc option \<times> counter_store" where
  "AccessCounter_incrementCounter now st =
     (case st of
        [] \<Rightarrow>
          (let c = \<lparr>createdAt = Some now, updatedAt = Some now, count = 1, lastUpdated = now\<rparr>
           in (Some c, [c]))
      | c # cs \<Rightarrow>
          (let c' = c\<lparr>count := count c + 1, lastUpdated := now, updatedAt := Some now\<rparr>
           in (Some c', c' # cs)))"

text \<open>\<open>AccessCounterSchema.statics.getCurrentCount\<close>: \<open>findOne({}).lean()\<close>.\<close>

definition AccessCounter_getCurrentCount :: "counter_store \<Rightarrow> counter_doc option" where
  "AccessCounter_getCurrentCount st = (case st of [] \<Rightarrow> None | c # cs \<Rightarrow> Some c)"

text \<open>\<open>AccessCounterSchema.statics.resetCounter\<close>: \<open>findOneAndUpdate\<close> with the empty
  filter, the replacement fields \<open>count: 0\<close> and \<open>lastUpdated: new Date()\<close> (which
  Mongoose sends as \<open>$set\<close>), and the options \<open>new\<close> and \<open>upsert\<close>.\<close>

definition AccessCounter_resetCounter ::
  "date \<Rightarrow> counter_store \<Rightarrow> counter_doc option \<times> counter_store" where
  "AccessCounter_resetCounter now st =
     (case st of
        [] \<Rightarrow>
          (let c = \<lparr>createdAt = Some now, updatedAt = Some now, count = 0, lastUpdated = now\<rparr>
           in (Some c, [c]))
      | c # cs \<Rightarrow>
          (let c' = c\<lparr>count := 0, lastUpdated := now, updatedAt := Some now\<rparr>
           in (Some c', c' # cs)))"

subsection \<open>\<open>class AccessCounterService\<close>\<close>

text \<open>
  Each method returns its result, or the \<open>AppError\<close> it throws, and the store it leaves.
  The store calls of the model always answer; a driver failure (the \<open>catch\<close> blocks
  turn it into a 500 error, or into \<open>false\<close> in \<open>validateIntegrity\<close>) is outside the
  model.
\<close>

definition counterResponse :: "int \<Rightarrow> date \<Rightarrow> jval" where
  "counterResponse c d = JObj [(''count'', JNum c), (''lastUpdated'', JDate d)]"

definition AccessCounterService_incrementAccess ::
  "date \<Rightarrow> counter_store \<Rightarrow> (app_error + jval) \<times> counter_store" where
  "AccessCounterService_incrementAccess now st =
     (case AccessCounter_incrementCounter now st of
        (None, st') \<Rightarrow> (Inl (AppError (js ''Erro ao incrementar contador de acessos'') 500), st')
      | (Some counter, st') \<Rightarrow>
          (Inr (counterResponse (count counter) (lastUpdated counter)), st'))"

definition AccessCounterService_getCurrentCount ::
  "date \<Rightarrow> counter_store \<Rightarrow> (app_error + jval) \<times> counter_store" where
  "AccessCounterService_getCurrentCount now st =
     (case AccessCounter_getCurrentCount st of
        None \<Rightarrow> (Inr (counterResponse 0 now), st)
      | Some counter \<Rightarrow> (Inr (counterResponse (count counter) (lastUpdated counter)), st))"

definition AccessCounterService_resetCounter ::
  "date \<Rightarrow> counter_store \<Rightarrow> (app_error + jval) \<times> counter_store" where
  "AccessCounterService_resetCounter now st =
     (case AccessCounter_resetCounter now st of
        (None, st') \<Rightarrow> (Inl (AppError (js ''Erro ao resetar contador de acessos'') 500), st')
      | (Some counter, st') \<Rightarrow>
          (Inr (counterResponse (count counter) (lastUpdated counter)), st'))"

text \<open>\<open>validateIntegrity\<close>: \<open>find({})\<close> returns every document of the collection.\<close>

definition AccessCounterService_validateIntegrity :: "counter_store \<Rightarrow> bool" where
  "AccessCounterService_validateIntegrity st =
     (let counters = st in
      if length counters > 1 then False
      else if length counters = 1 \<and> count (counters ! 0) < 0 then False
      else True)"


subsection \<open>\<open>class AccessCounterController\<close>\<close>

text \<open>
  A handler either sends a response or rejects with the error of the service, which
  \<open>asyncHandler\<close> passes on to the error middleware. \<open>nodeEnv\<close> is
  \<open>process.env.NODE_ENV\<close>, read when the request is handled.
\<close>

definition AccessCounterController_resetCounter ::
  "string option \<Rightarrow> date \<Rightarrow> date \<Rightarrow> counter_store
     \<Rightarrow> (app_error + http_response) \<times> counter_store" where
  "AccessCounterController_resetCounter nodeEnv now ts st =
     (if nodeEnv = Some ''production''
      then (Inr (ApiResponseUtil_forbidden ts
                   (''Opera'' @ [CHR 0xE7, CHR 0xE3] @ ''o n'' @ [CHR 0xE3]
                    @ ''o permitida em produ'' @ [CHR 0xE7, CHR 0xE3] @ ''o'')), st)
      else (case AccessCounterService_resetCounter now st of
              (Inl e, st') \<Rightarrow> (Inl e, st')
            | (Inr result, st') \<Rightarrow>
                (Inr (ApiResponseUtil_success ts (Some result)
                        ''Contador resetado com sucesso'' HttpStatus_OK), st')))"

section \<open>Strings of the JavaScript runtime\<close>

text \<open>
  The white space of ECMAScript: the characters \<open>String.prototype.trim\<close> strips,
  \<open>parseInt\<close> skips and the class \<open>\s\<close> of a regular expression matches (tab, line
  feed, vertical tab, form feed, carriage return, space, no-break space, the Unicode space
  separators, the line and paragraph separators and the byte order mark).
\<close>

definition isWhiteSpace :: "jschar \<Rightarrow> bool" where
  "isWhiteSpace c =
     (c = 0x09 \<or> c = 0x0A \<or> c = 0x0B \<or> c = 0x0C \<or> c = 0x0D \<or> c = 0x20 \<or> c = 0xA0
      \<or> c = 0x1680 \<or> (0x2000 \<le> c \<and> c \<le> 0x200A) \<or> c = 0x2028 \<or> c = 0x2029
      \<or> c = 0x202F \<or> c = 0x205F \<or> c = 0x3000 \<or> c = 0xFEFF)"

text \<open>The characters that \<open>.\<close> of a regular expression does not match.\<close>

definition isLineTerminator :: "jschar \<Rightarrow> bool" where
  "isLineTerminator c = (c = 0x0A \<or> c = 0x0D \<or> c = 0x2028 \<or> c = 0x2029)"

text \<open>\<open>String.prototype.trim\<close>; the sanitizer \<open>trim()\<close> of validator.js without
  argument strips the same characters.\<close>

definition trim :: "jsstring \<Rightarrow> jsstring" where
  "trim s = rev (dropWhile isWhiteSpace (rev (dropWhile isWhiteSpace s)))"

text \<open>\<open>Array.prototype.join\<close> on strings.\<close>

fun join :: "jsstring \<Rightarrow> jsstring list \<Rightarrow> jsstring" where
  "join sep [] = []"
| "join sep [x] = x"
| "join sep (x # y # ys) = x @ sep @ join sep (y # ys)"

text \<open>
  The numbers \<open>parseInt\<close> can return: \<open>NaN\<close>, an integer-valued double, or an
  infinity. A comparison with \<open>NaN\<close> is false.
\<close>

datatype jsnum = NaN | Num int | PosInfinity | NegInfinity

definition isNaN :: "jsnum \<Rightarrow> bool" where
  "isNaN x = (x = NaN)"

definition jsLess :: "jsnum \<Rightarrow> int \<Rightarrow> bool" where
  "jsLess x k = (case x of Num n \<Rightarrow> n < k | NegInfinity \<Rightarrow> True | _ \<Rightarrow> False)"

definition jsGreater :: "jsnum \<Rightarrow> int \<Rightarrow> bool" where
  "jsGreater x k = (case x of Num n \<Rightarrow> k < n | PosInfinity \<Rightarrow> True | _ \<Rightarrow> False)"

text \<open>
  The Number value of a mathematical integer: the integer itself up to \<open>2^53\<close>, beyond
  that the nearest double, which keeps 53 significant bits and rounds a tie to the even
  one (9007199254740993 becomes 9007199254740992), and an infinity from \<open>2^1024\<close> on.
  \<open>doubleExponent m\<close> is the number of low bits that do not fit.
\<close>

function doubleExponent :: "nat \<Rightarrow> nat" where
  "doubleExponent m = (if m < 2 ^ 53 then 0 else Suc (doubleExponent (m div 2)))"
  by pat_completeness auto
termination
  by (relation "measure (\<lambda>m. m)") auto

declare doubleExponent.simps [simp del]

definition roundMagnitude :: "nat \<Rightarrow> nat" where
  "roundMagnitude m =
     (let e = doubleExponent m;
          q = m div 2 ^ e;
          r = m mod 2 ^ e;
          q' = (if 2 ^ e < 2 * r \<or> (2 * r = 2 ^ e \<and> odd q) then q + 1 else q)
      in q' * 2 ^ e)"

definition toNumber :: "int \<Rightarrow> jsnum" where
  "toNumber n =
     (let v = roundMagnitude (nat \<bar>n\<bar>)
      in if 2 ^ 1024 \<le> v then (if n < 0 then NegInfinity else PosInfinity)
         else Num (if n < 0 then - int v else int v))"

text \<open>
  \<open>parseInt(string)\<close> without radix, after ECMA-262: skip leading white space, read a
  sign, take radix 16 after the prefix \<open>0x\<close> or \<open>0X\<close> and radix 10 otherwise, and
  read the longest prefix of digits of that radix; anything after it is ignored.
  \<open>leadingInteger\<close> is the signed integer these digits denote, \<open>None\<close> without such a
  digit; \<open>parseInt\<close> returns its Number value, and \<open>NaN\<close> without a digit. Every
  digit is read; the standard allows an implementation to read the decimal digits after
  the twentieth significant one as zeros, which changes no value below \<open>10^20\<close> and no
  comparison with 1 or 100.
\<close>

definition digitValue :: "jschar \<Rightarrow> nat" where
  "digitValue c =
     (if 0x30 \<le> c \<and> c \<le> 0x39 then unat c - 48
      else if 0x61 \<le> c \<and> c \<le> 0x7A then unat c - 87
      else if 0x41 \<le> c \<and> c \<le> 0x5A then unat c - 55
      else 36)"

definition leadingInteger :: "jsstring \<Rightarrow> int option" where
  "leadingInteger inputString =
     (let S = dropWhile isWhiteSpace inputString;
          sign = (if S \<noteq> [] \<and> hd S = 0x2D then - 1 else 1);
          S1 = (if S \<noteq> [] \<and> (hd S = 0x2B \<or> hd S = 0x2D) then tl S else S);
          stripPrefix = (2 \<le> length S1 \<and> S1 ! 0 = 0x30 \<and> (S1 ! 1 = 0x78 \<or> S1 ! 1 = 0x58));
          R = (if stripPrefix then 16 else 10);
          S2 = (if stripPrefix then drop 2 S1 else S1);
          Z = takeWhile (\<lambda>c. digitValue c < R) S2
      in if Z = [] then None
         else Some (sign * int (foldl (\<lambda>a c. a * R + digitValue c) 0 Z)))"

definition parseInt :: "jsstring \<Rightarrow> jsnum" where
  "parseInt inputString =
     (case leadingInteger inputString of None \<Rightarrow> NaN | Some mathInt \<Rightarrow> toNumber mathInt)"

text \<open>
  What the source takes from the runtime and its libraries as given:
  \<open>String.prototype.toLowerCase\<close> (the Unicode case mapping), the salted bcrypt hash of
  a password, and Mongoose's cast of a string to an \<open>ObjectId\<close> (\<open>None\<close>: the cast
  fails with a \<open>CastError\<close>), which yields the identifier in the form
  \<open>_id.toString()\<close> prints.
\<close>

record runtime =
  toLowerCase :: "jsstring \<Rightarrow> jsstring"
  bcryptHash :: "jsstring \<Rightarrow> jsstring"
  castObjectId :: "jsstring \<Rightarrow> jsstring option"

text \<open>Accented letters of the messages of the source, as Latin-1 characters.\<close>

abbreviation (input) a_acute :: string where "a_acute \<equiv> [CHR 0xE1]"
abbreviation (input) a_tilde :: string where "a_tilde \<equiv> [CHR 0xE3]"
abbreviation (input) c_cedil :: string where "c_cedil \<equiv> [CHR 0xE7]"
abbreviation (input) e_acute :: string where "e_acute \<equiv> [CHR 0xE9]"
abbreviation (input) o_acute :: string where "o_acute \<equiv> [CHR 0xF3]"
abbreviation (input) u_acute :: string where "u_acute \<equiv> [CHR 0xFA]"

section \<open>The user schema\<close>

subsection \<open>Patterns\<close>

text \<open>The class of the name pattern: \<open>a-z\<close>, \<open>A-Z\<close>, the range that the source
  writes from capital A with grave (U+00C0) to small y with diaeresis (U+00FF), and
  \<open>\s\<close>. The pattern has no flags, so it reads code units.\<close>

definition isNameChar :: "jschar \<Rightarrow> bool" where
  "isNameChar c =
     ((0x61 \<le> c \<and> c \<le> 0x7A) \<or> (0x41 \<le> c \<and> c \<le> 0x5A) \<or> (0xC0 \<le> c \<and> c \<le> 0xFF)
      \<or> isWhiteSpace c)"

text \<open>The name pattern: one or more characters of the class, from start to end.\<close>

definition nameRegex :: "jsstring \<Rightarrow> bool" where
  "nameRegex s = (s \<noteq> [] \<and> list_all isNameChar s)"

text \<open>
  The email pattern \<open>^[^\s@]+@[^\s@]+\.[^\s@]+$\<close>: a non-empty local part up to the first
  \<open>@\<close>, and after it a part without white space or \<open>@\<close> that has a dot with at least
  one character on each side.
\<close>

definition emailRegex :: "jsstring \<Rightarrow> bool" where
  "emailRegex s =
     (let local = takeWhile (\<lambda>c. c \<noteq> 0x40) s;
          rest = drop (length local) s
      in local \<noteq> [] \<and> list_all (\<lambda>c. \<not> isWhiteSpace c) local \<and> rest \<noteq> []
         \<and> list_all (\<lambda>c. \<not> isWhiteSpace c \<and> c \<noteq> 0x40) (tl rest)
         \<and> list_ex (\<lambda>c. c = 0x2E) (butlast (tl (tl rest))))"

text \<open>
  The password pattern \<open>^(?=.*[a-z])(?=.*[A-Z])(?=.*\d).+$\<close>: each lookahead finds its
  character before the first line terminator, and \<open>.+$\<close> needs a non-empty string without
  line terminator.
\<close>

definition lookahead :: "(jschar \<Rightarrow> bool) \<Rightarrow> jsstring \<Rightarrow> bool" where
  "lookahead P s = list_ex P (takeWhile (\<lambda>c. \<not> isLineTerminator c) s)"

definition passwordRegex :: "jsstring \<Rightarrow> bool" where
  "passwordRegex s =
     (lookahead (\<lambda>c. 0x61 \<le> c \<and> c \<le> 0x7A) s \<and> lookahead (\<lambda>c. 0x41 \<le> c \<and> c \<le> 0x5A) s
      \<and> lookahead (\<lambda>c. 0x30 \<le> c \<and> c \<le> 0x39) s
      \<and> s \<noteq> [] \<and> list_all (\<lambda>c. \<not> isLineTerminator c) s)"

subsection \<open>Setters and validators of the paths\<close>

text \<open>
  \<open>trim: true\<close> and \<open>lowercase: true\<close> are setters. Mongoose applies the setters of a
  path, in the order of their declaration, to a value assigned to a document, to a value
  of an update, and to a value of a query filter.
\<close>

definition set_name :: "jsstring \<Rightarrow> jsstring" where
  "set_name v = trim v"

definition set_email :: "runtime \<Rightarrow> jsstring \<Rightarrow> jsstring" where
  "set_email rt v = toLowerCase rt (trim v)"

text \<open>
  The validators of a path run in order (\<open>required\<close> first) and the path reports the
  message of the first one that fails. \<open>match\<close> accepts the empty string; the length is
  the number of code units.
\<close>

fun firstFailure :: "(bool \<times> string) list \<Rightarrow> string option" where
  "firstFailure [] = None"
| "firstFailure ((ok, msg) # vs) = (if ok then firstFailure vs else Some msg)"

definition validate_name :: "jsstring \<Rightarrow> string option" where
  "validate_name v = firstFailure
     [(v \<noteq> [], ''Nome '' @ e_acute @ '' obrigat'' @ o_acute @ ''rio''),
      (2 \<le> length v, ''Nome deve ter pelo menos 2 caracteres''),
      (length v \<le> 100, ''Nome n'' @ a_tilde @ ''o pode exceder 100 caracteres''),
      (v = [] \<or> nameRegex v,
       ''Nome deve conter apenas letras e espa'' @ c_cedil @ ''os'')]"

definition validate_email :: "jsstring \<Rightarrow> string option" where
  "validate_email v = firstFailure
     [(v \<noteq> [], ''Email '' @ e_acute @ '' obrigat'' @ o_acute @ ''rio''),
      (v = [] \<or> emailRegex v, ''Email deve ter um formato v'' @ a_acute @ ''lido''),
      (length v \<le> 255, ''Email n'' @ a_tilde @ ''o pode exceder 255 caracteres'')]"

definition validate_password :: "jsstring \<Rightarrow> string option" where
  "validate_password v = firstFailure
     [(v \<noteq> [], ''Senha '' @ e_acute @ '' obrigat'' @ o_acute @ ''ria''),
      (8 \<le> length v, ''Senha deve ter pelo menos 8 caracteres''),
      (length v \<le> 128, ''Senha n'' @ a_tilde @ ''o pode exceder 128 caracteres''),
      (passwordRegex v,
       ''Senha deve conter pelo menos uma letra mai'' @ u_acute
       @ ''scula, uma min'' @ u_acute @ ''scula e um n'' @ u_acute @ ''mero'')]"

section \<open>The collection \<open>users\<close>\<close>

text \<open>
  \<open>interface IUser\<close> with the \<open>_id\<close> of the document (\<open>user_id\<close>, in the form
  \<open>_id.toString()\<close> prints). The collection is the list of its documents in insertion
  order.
\<close>

record user_doc = timestamps +
  user_id :: jsstring
  name :: jsstring
  email :: jsstring
  password :: jsstring

type_synonym user_store = "user_doc list"

text \<open>The errors a call of the model can reject with, by the \<open>name\<close> and \<open>code\<close> the
  source inspects: a \<open>MongoServerError\<close> with its code and the fields of its
  \<open>keyPattern\<close>, a \<open>ValidationError\<close> with the messages of its paths, a \<open>CastError\<close>,
  and a plain \<open>Error\<close>.\<close>

datatype js_error =
    MongoServerError nat "string list"
  | ValidationError "string list"
  | CastError
  | Error jsstring

text \<open>\<open>UserSchema.methods.toResponseObject\<close>.\<close>

definition toResponseObject :: "user_doc \<Rightarrow> jval" where
  "toResponseObject this =
     JObj ([(''_id'', JStr (user_id this)),
            (''name'', JStr (name this)),
            (''email'', JStr (email this))]
           @ optField ''createdAt'' (map_option JDate (createdAt this))
           @ optField ''updatedAt'' (map_option JDate (updatedAt this)))"

text \<open>\<open>UserSchema.statics.findByEmail\<close>: \<open>findOne({ email: email.toLowerCase() })\<close>. The
  value of the filter passes the setters of the path \<open>email\<close>; the first document with
  that email is returned.\<close>

definition User_findByEmail :: "runtime \<Rightarrow> user_store \<Rightarrow> jsstring \<Rightarrow> user_doc option" where
  "User_findByEmail rt st email' =
     find (\<lambda>u. email u = set_email rt (toLowerCase rt email')) st"

text \<open>\<open>findById\<close>: the identifier is cast, then looked up.\<close>

definition User_findById :: "runtime \<Rightarrow> user_store \<Rightarrow> jsstring \<Rightarrow> js_error + user_doc option" where
  "User_findById rt st userId =
     (case castObjectId rt userId of
        None \<Rightarrow> Inl CastError
      | Some oid \<Rightarrow> Inr (find (\<lambda>u. user_id u = oid) st))"

text \<open>The error middleware \<open>UserSchema.post('save', ...)\<close>.\<close>

definition UserSchema_post_save :: "js_error \<Rightarrow> js_error" where
  "UserSchema_post_save error =
     (case error of
        MongoServerError code keyPattern \<Rightarrow>
          (if code = 11000
           then (if ''email'' \<in> set keyPattern
                 then Error (js (''Email j'' @ a_acute @ '' est'' @ a_acute @ '' em uso''))
                 else Error (js ''Dados duplicados''))
           else error)
      | _ \<Rightarrow> error)"

text \<open>
  \<open>new User({name, email, password}).save()\<close>. The constructor applies the setters. The
  document is validated; the middleware \<open>pre('save')\<close> replaces the password by its
  hash; the insertion fails on the unique index of \<open>email\<close> with code 11000, which
  passes through the error middleware; a successful insertion appends the document with
  the identifier \<open>newId\<close> the driver generated and both time stamps.
\<close>

definition User_save ::
  "runtime \<Rightarrow> date \<Rightarrow> jsstring \<Rightarrow> user_store \<Rightarrow> jsstring \<Rightarrow> jsstring \<Rightarrow> jsstring
     \<Rightarrow> (js_error + user_doc) \<times> user_store" where
  "User_save rt now newId st name' email' password' =
     (let n = set_name name';
          e = set_email rt email';
          errors = List.map_filter id [validate_name n, validate_email e, validate_password password']
      in if errors \<noteq> [] then (Inl (UserSchema_post_save (ValidationError errors)), st)
         else
           (let doc = \<lparr>createdAt = Some now, updatedAt = Some now, user_id = newId,
                       name = n, email = e, password = bcryptHash rt password'\<rparr>
            in if list_ex (\<lambda>u. email u = e) st
               then (Inl (UserSchema_post_save (MongoServerError 11000 [''email''])), st)
               else (Inr doc, st @ [doc])))"

text \<open>
  \<open>findByIdAndUpdate(userId, update, {new: true, runValidators: true})\<close>. The update
  holds the fields of \<open>name\<close> and \<open>email\<close> that are given; they pass the setters and
  the validators of their paths, and where both fail the message of \<open>email\<close> comes
  first. Without a document of that identifier the call returns
  \<open>null\<close>. The first document with the identifier is replaced, \<open>updatedAt\<close> is set,
  and the unique index of \<open>email\<close> rejects an email another document holds.
\<close>

fun replaceFirst :: "('a \<Rightarrow> bool) \<Rightarrow> 'a \<Rightarrow> 'a list \<Rightarrow> 'a list" where
  "replaceFirst P y [] = []"
| "replaceFirst P y (x # xs) = (if P x then y # xs else x # replaceFirst P y xs)"

definition User_findByIdAndUpdate ::
  "runtime \<Rightarrow> date \<Rightarrow> user_store \<Rightarrow> jsstring \<Rightarrow> jsstring option \<Rightarrow> jsstring option
     \<Rightarrow> (js_error + user_doc option) \<times> user_store" where
  "User_findByIdAndUpdate rt now st userId name' email' =
     (case castObjectId rt userId of
        None \<Rightarrow> (Inl CastError, st)
      | Some oid \<Rightarrow>
          (let n = map_option set_name name';
               e = map_option (set_email rt) email';
               errors = List.map_filter id
                 [Option.bind e validate_email, Option.bind n validate_name]
           in if errors \<noteq> [] then (Inl (ValidationError errors), st)
              else
                (case find (\<lambda>u. user_id u = oid) st of
                   None \<Rightarrow> (Inr None, st)
                 | Some u \<Rightarrow>
                     (let u' = u\<lparr>name := (case n of None \<Rightarrow> name u | Some v \<Rightarrow> v),
                                email := (case e of None \<Rightarrow> email u | Some v \<Rightarrow> v),
                                updatedAt := Some now\<rparr>
                      in if list_ex (\<lambda>v. user_id v \<noteq> oid \<and> email v = email u') st
                         then (Inl (MongoServerError 11000 [''email'']), st)
                         else (Inr (Some u'), replaceFirst (\<lambda>v. user_id v = oid) u' st)))))"

section \<open>\<open>class UserService\<close>\<close>

text \<open>\<open>interface IUserCreateRequest\<close>, the body of a creation request with its fields
  \<open>name\<close>, \<open>email\<close> and \<open>password\<close>.\<close>

record IUserCreateRequest =
  body_name :: jsstring
  body_email :: jsstring
  body_password :: jsstring

text \<open>The \<open>catch\<close> block shared by \<open>createUser\<close> and \<open>updateUser\<close>, up to the
  message of the last case: code 11000 becomes a 409, a \<open>ValidationError\<close> a 400 with
  the messages joined, anything else a 500.\<close>

definition catchStoreError :: "string \<Rightarrow> js_error \<Rightarrow> app_error" where
  "catchStoreError internalMsg error =
     (case error of
        MongoServerError code keyPattern \<Rightarrow>
          (if code = 11000
           then AppError (js (''Email j'' @ a_acute @ '' est'' @ a_acute @ '' em uso'')) 409
           else AppError (js internalMsg) 500)
      | ValidationError errors \<Rightarrow>
          AppError (js (''Dados inv'' @ a_acute @ ''lidos: '') @ join (js '', '') (map js errors)) 400
      | _ \<Rightarrow> AppError (js internalMsg) 500)"

definition UserService_createUser ::
  "runtime \<Rightarrow> date \<Rightarrow> jsstring \<Rightarrow> user_store \<Rightarrow> IUserCreateRequest
     \<Rightarrow> (app_error + jval) \<times> user_store" where
  "UserService_createUser rt now newId st userData =
     (case User_findByEmail rt st (body_email userData) of
        Some existingUser \<Rightarrow>
          (Inl (AppError (js (''Email j'' @ a_acute @ '' est'' @ a_acute @ '' em uso'')) 409), st)
      | None \<Rightarrow>
          (case User_save rt now newId st
                  (trim (body_name userData))
                  (trim (toLowerCase rt (body_email userData)))
                  (body_password userData) of
             (Inr savedUser, st') \<Rightarrow> (Inr (toResponseObject savedUser), st')
           | (Inl error, st') \<Rightarrow>
               (Inl (catchStoreError (''Erro interno ao criar usu'' @ a_acute @ ''rio'') error),
                st')))"

definition UserService_getUserById ::
  "runtime \<Rightarrow> user_store \<Rightarrow> jsstring \<Rightarrow> app_error + jval" where
  "UserService_getUserById rt st userId =
     (case User_findById rt st userId of
        Inl error \<Rightarrow>
          (case error of
             CastError \<Rightarrow>
               Inl (AppError (js (''ID de usu'' @ a_acute @ ''rio inv'' @ a_acute @ ''lido'')) 400)
           | _ \<Rightarrow> Inl (AppError (js (''Erro interno ao buscar usu'' @ a_acute @ ''rio'')) 500))
      | Inr None \<Rightarrow>
          Inl (AppError (js (''Usu'' @ a_acute @ ''rio n'' @ a_tilde @ ''o encontrado'')) 404)
      | Inr (Some user) \<Rightarrow>
          Inr (JObj ([(''_id'', JStr (user_id user)),
                      (''name'', JStr (name user)),
                      (''email'', JStr (email user))]
                     @ optField ''createdAt'' (map_option JDate (createdAt user))
                     @ optField ''updatedAt'' (map_option JDate (updatedAt user)))))"

definition UserService_getUserByEmail ::
  "runtime \<Rightarrow> user_store \<Rightarrow> jsstring \<Rightarrow> app_error + user_doc option" where
  "UserService_getUserByEmail rt st email' = Inr (User_findByEmail rt st email')"

text \<open>
  \<open>listUsers(page, limit)\<close>: the documents sorted by \<open>createdAt\<close>, newest first (a
  document without the field last; the order among equal dates is the store's choice, here
  the reverse of a stable ascending sort), then \<open>skip\<close> and \<open>limit\<close>, and the count of
  all documents. \<open>Math.ceil(total / limit)\<close> is the ceiling of the exact quotient
  (the double division of the source gives it for any collection of fewer than \<open>2^45\<close>
  documents). The model
  covers the calls with \<open>page \<ge> 1\<close> and \<open>limit \<ge> 1\<close>; for the others, where the
  store's treatment of a negative skip and of a limit that is not positive decides, it
  gives \<open>None\<close>.
\<close>

definition newestFirst :: "user_store \<Rightarrow> user_doc list" where
  "newestFirst st = rev (sort_key createdAt st)"

definition UserService_listUsers ::
  "user_store \<Rightarrow> int \<Rightarrow> int \<Rightarrow> (app_error + jval) option" where
  "UserService_listUsers st page limit =
     (if page < 1 \<or> limit < 1 then None
      else
        (let skip = (page - 1) * limit;
             users = take (nat limit) (drop (nat skip) (newestFirst st));
             total = int (length st);
             pages = \<lceil>real_of_int total / real_of_int limit\<rceil>;
             userResponses = map (\<lambda>user.
                 JObj ([(''_id'', JStr (user_id user)),
                        (''name'', JStr (name user)),
                        (''email'', JStr (email user))]
                       @ optField ''createdAt'' (map_option JDate (createdAt user))
                       @ optField ''updatedAt'' (map_option JDate (updatedAt user)))) users
         in Some (Inr (JObj
              [(''users'', JArr userResponses),
               (''pagination'', JObj
                  [(''page'', JNum page),
                   (''limit'', JNum limit),
                   (''total'', JNum total),
                   (''pages'', JNum pages),
                   (''hasNext'', JBool (page < pages)),
                   (''hasPrev'', JBool (page > 1))])]))))"

text \<open>\<open>updateUser(userId, {name?, email?})\<close>. A field that is absent or the empty string
  is falsy and left out of the update.\<close>

definition truthy :: "jsstring option \<Rightarrow> jsstring option" where
  "truthy v = (case v of None \<Rightarrow> None | Some x \<Rightarrow> if x = [] then None else Some x)"

definition UserService_updateUser ::
  "runtime \<Rightarrow> date \<Rightarrow> user_store \<Rightarrow> jsstring \<Rightarrow> jsstring option \<Rightarrow> jsstring option
     \<Rightarrow> (app_error + jval) \<times> user_store" where
  "UserService_updateUser rt now st userId updName updEmail =
     (if (case truthy updEmail of
            None \<Rightarrow> False
          | Some e \<Rightarrow>
              (case User_findByEmail rt st e of
                 None \<Rightarrow> False
               | Some existingUser \<Rightarrow> user_id existingUser \<noteq> userId))
      then (Inl (AppError (js (''Email j'' @ a_acute @ '' est'' @ a_acute
                               @ '' em uso por outro usu'' @ a_acute @ ''rio'')) 409), st)
      else
        (case User_findByIdAndUpdate rt now st userId
                (map_option trim (truthy updName))
                (map_option (\<lambda>e. trim (toLowerCase rt e)) (truthy updEmail)) of
           (Inr None, st') \<Rightarrow>
             (Inl (AppError (js (''Usu'' @ a_acute @ ''rio n'' @ a_tilde @ ''o encontrado'')) 404),
              st')
         | (Inr (Some updatedUser), st') \<Rightarrow> (Inr (toResponseObject updatedUser), st')
         | (Inl error, st') \<Rightarrow>
             (Inl (catchStoreError (''Erro interno ao atualizar usu'' @ a_acute @ ''rio'') error),
              st')))"

section \<open>\<open>class UserController\<close>\<close>

text \<open>
  A handler sends a response, or rejects with the error of the service. \<open>now\<close> is the
  clock reading inside the store call, \<open>ts\<close> the one of the envelope. A query parameter
  is absent or a string.
\<close>

definition UserController_createUser ::
  "runtime \<Rightarrow> date \<Rightarrow> jsstring \<Rightarrow> date \<Rightarrow> user_store \<Rightarrow> IUserCreateRequest
     \<Rightarrow> (app_error + http_response) \<times> user_store" where
  "UserController_createUser rt now newId ts st userData =
     (case UserService_createUser rt now newId st userData of
        (Inl e, st') \<Rightarrow> (Inl e, st')
      | (Inr result, st') \<Rightarrow>
          (Inr (ApiResponseUtil_created ts (Some result)
                  (''Usu'' @ a_acute @ ''rio criado com sucesso'')), st'))"

definition UserController_getUserById ::
  "runtime \<Rightarrow> date \<Rightarrow> user_store \<Rightarrow> jsstring \<Rightarrow> app_error + http_response" where
  "UserController_getUserById rt ts st userId =
     (case UserService_getUserById rt st userId of
        Inl e \<Rightarrow> Inl e
      | Inr result \<Rightarrow>
          Inr (ApiResponseUtil_success ts (Some result)
                 (''Usu'' @ a_acute @ ''rio obtido com sucesso'') HttpStatus_OK))"

record list_query =
  query_page :: "jsstring option"
  query_limit :: "jsstring option"

text \<open>\<open>parseInt(req.query.page as string) || 1\<close>: an absent parameter reads as the string
  \<open>undefined\<close>, which has no digits; \<open>NaN\<close> and 0 are falsy.\<close>

definition parseIntOr :: "jsstring option \<Rightarrow> int \<Rightarrow> jsnum" where
  "parseIntOr v d =
     (let n = parseInt (case v of None \<Rightarrow> js ''undefined'' | Some x \<Rightarrow> x)
      in if isNaN n \<or> n = Num 0 then Num d else n)"

text \<open>The handler of the list. A page or limit that is an infinity is outside the model
  of the service, as the calls with a page or limit below 1 are.\<close>

definition UserController_listUsers ::
  "date \<Rightarrow> user_store \<Rightarrow> list_query \<Rightarrow> (app_error + http_response) option" where
  "UserController_listUsers ts st query =
     (let page = parseIntOr (query_page query) 1;
          limit = parseIntOr (query_limit query) 10
      in case (page, limit) of
           (Num p, Num l) \<Rightarrow>
             (case UserService_listUsers st p l of
                None \<Rightarrow> None
              | Some (Inl e) \<Rightarrow> Some (Inl e)
              | Some (Inr result) \<Rightarrow>
                  Some (Inr (ApiResponseUtil_success ts (Some result)
                               (''Usu'' @ a_acute @ ''rios listados com sucesso'')
                               HttpStatus_OK)))
         | _ \<Rightarrow> None)"

definition UserController_updateUser ::
  "runtime \<Rightarrow> date \<Rightarrow> date \<Rightarrow> user_store \<Rightarrow> jsstring \<Rightarrow> jsstring option \<Rightarrow> jsstring option
     \<Rightarrow> (app_error + http_response) \<times> user_store" where
  "UserController_updateUser rt now ts st userId updName updEmail =
     (case UserService_updateUser rt now st userId updName updEmail of
        (Inl e, st') \<Rightarrow> (Inl e, st')
      | (Inr result, st') \<Rightarrow>
          (Inr (ApiResponseUtil_success ts (Some result)
                  (''Usu'' @ a_acute @ ''rio atualizado com sucesso'') HttpStatus_OK), st'))"

definition UserController_getUserByEmail ::
  "runtime \<Rightarrow> date \<Rightarrow> user_store \<Rightarrow> jsstring option \<Rightarrow> app_error + http_response" where
  "UserController_getUserByEmail rt ts st email' =
     (case truthy email' of
        None \<Rightarrow>
          Inr (ApiResponseUtil_badRequest ts (''Email '' @ e_acute @ '' obrigat'' @ o_acute @ ''rio'')
                 None)
      | Some e \<Rightarrow>
          (case UserService_getUserByEmail rt st e of
             Inl err \<Rightarrow> Inl err
           | Inr (Some user) \<Rightarrow>
               Inr (ApiResponseUtil_success ts (Some (toResponseObject user))
                      (''Usu'' @ a_acute @ ''rio encontrado'') HttpStatus_OK)
           | Inr None \<Rightarrow>
               Inr (ApiResponseUtil_notFound ts
                      (''Usu'' @ a_acute @ ''rio n'' @ a_tilde @ ''o encontrado''))))"

section \<open>The validation middleware\<close>

subsection \<open>The name rule of \<open>validateUserCreation\<close>\<close>

text \<open>
  \<open>isLength\<close> of validator.js: the length is the number of code units, less one for each
  surrogate pair and for each variation selector U+FE0E or U+FE0F (older versions of the
  library do not subtract the selectors; the name pattern admits neither kind of code unit,
  see \<open>isLength_name\<close> below, so the names accepted are the same).
\<close>

fun surrogatePairs :: "jsstring \<Rightarrow> nat" where
  "surrogatePairs (a # b # cs) =
     (if 0xD800 \<le> a \<and> a \<le> 0xDBFF \<and> 0xDC00 \<le> b \<and> b \<le> 0xDFFF
      then Suc (surrogatePairs cs) else surrogatePairs (b # cs))"
| "surrogatePairs _ = 0"

definition isLength :: "nat \<Rightarrow> nat \<Rightarrow> jsstring \<Rightarrow> bool" where
  "isLength min' max' str =
     (let presentationSequences = length (filter (\<lambda>c. c = 0xFE0F \<or> c = 0xFE0E) str);
          len = length str - presentationSequences - surrogatePairs str
      in min' \<le> len \<and> len \<le> max')"

text \<open>
  The chain \<open>body('name').trim().notEmpty().isLength({min: 2, max: 100}).matches(...)\<close>:
  the sanitizer replaces the value, every validator runs on it, and each one that fails
  adds its message.
\<close>

definition validateUserCreation_name :: "jsstring \<Rightarrow> string list" where
  "validateUserCreation_name input =
     (let v = trim input
      in (if v \<noteq> [] then [] else [''Nome '' @ e_acute @ '' obrigat'' @ o_acute @ ''rio''])
         @ (if isLength 2 100 v then [] else [''Nome deve ter entre 2 e 100 caracteres''])
         @ (if nameRegex v then []
            else [''Nome deve conter apenas letras e espa'' @ c_cedil @ ''os'']))"

text \<open>
  The name of a creation request as the route treats it: \<open>sanitizeInput\<close> trims the
  field, the chain runs, and \<open>handleValidationErrors\<close> lets the request pass when there
  is no message. The name is accepted when its chain leaves none.
\<close>

definition nameAccepted :: "jsstring \<Rightarrow> bool" where
  "nameAccepted input = (validateUserCreation_name (trim input) = [])"

subsection \<open>\<open>validateQueryParams\<close> and the route \<open>GET /api/users\<close>\<close>

text \<open>A middleware sends a response (\<open>Some\<close>) or calls \<open>next()\<close> (\<open>None\<close>). A
  parameter that is absent or the empty string is falsy and not checked.\<close>

definition validateQueryParams :: "date \<Rightarrow> list_query \<Rightarrow> http_response option" where
  "validateQueryParams ts query =
     (if (case truthy (query_page query) of
            None \<Rightarrow> False
          | Some page \<Rightarrow>
              (let pageNum = parseInt page in isNaN pageNum \<or> jsLess pageNum 1))
      then Some (ApiResponseUtil_badRequest ts
                   (''Par'' @ [CHR 0xE2] @ ''metro page deve ser um n'' @ u_acute
                    @ ''mero positivo'') None)
      else if (case truthy (query_limit query) of
                 None \<Rightarrow> False
               | Some limit \<Rightarrow>
                   (let limitNum = parseInt limit
                    in isNaN limitNum \<or> jsLess limitNum 1 \<or> jsGreater limitNum 100))
      then Some (ApiResponseUtil_badRequest ts
                   (''Par'' @ [CHR 0xE2] @ ''metro limit deve ser um n'' @ u_acute
                    @ ''mero entre 1 e 100'') None)
      else None)"

text \<open>\<open>router.get('/', validateQueryParams, UserController.listUsers)\<close>: the handler, and
  with it the store, is reached only through \<open>next()\<close>.\<close>

definition userRoutes_listUsers ::
  "date \<Rightarrow> user_store \<Rightarrow> list_query \<Rightarrow> (app_error + http_response) option" where
  "userRoutes_listUsers ts st query =
     (case validateQueryParams ts query of
        Some response \<Rightarrow> Some (Inr response)
      | None \<Rightarrow> UserController_listUsers ts st query)"

section \<open>Vocabulary of the statements\<close>

subsection \<open>Letters\<close>

text \<open>The letters of Basic Latin, and the letters of the Latin-1 Supplement from U+00C0 on:
  the range U+00C0 to U+00FF without the multiplication sign U+00D7 and the division sign
  U+00F7, which are no letters.\<close>

definition isAsciiLetter :: "jschar \<Rightarrow> bool" where
  "isAsciiLetter c = ((0x41 \<le> c \<and> c \<le> 0x5A) \<or> (0x61 \<le> c \<and> c \<le> 0x7A))"

definition isLatin1Letter :: "jschar \<Rightarrow> bool" where
  "isLatin1Letter c = (0xC0 \<le> c \<and> c \<le> 0xFF \<and> c \<noteq> 0xD7 \<and> c \<noteq> 0xF7)"

subsection \<open>The rules in the words of the specification\<close>

text \<open>
  The name rule as the specification words it: after trimming, 2 to 100 characters, each
  a letter, accented letters included, or a space. The letters compared here are those of
  the blocks Basic Latin, Latin-1 Supplement and Latin Extended-A (U+0100 to U+017F, all
  of them letters with diacritics or ligatures); a space is read as any white space.
\<close>

definition spec_isLetter :: "jschar \<Rightarrow> bool" where
  "spec_isLetter c = (isAsciiLetter c \<or> isLatin1Letter c \<or> (0x100 \<le> c \<and> c \<le> 0x17F))"

definition spec_nameRule :: "jsstring \<Rightarrow> bool" where
  "spec_nameRule input =
     (let t = trim input
      in 2 \<le> length t \<and> length t \<le> 100
         \<and> list_all (\<lambda>c. spec_isLetter c \<or> isWhiteSpace c) t)"

text \<open>A query parameter that is a number, as the specification words it: an optional sign
  and one or more decimal digits, and nothing else.\<close>

definition spec_isNumber :: "jsstring \<Rightarrow> bool" where
  "spec_isNumber s =
     (let digits = (if s \<noteq> [] \<and> (hd s = 0x2B \<or> hd s = 0x2D) then tl s else s)
      in digits \<noteq> [] \<and> list_all (\<lambda>c. 0x30 \<le> c \<and> c \<le> 0x39) digits)"

text \<open>The value of such a number, and the parameters the amended rule for the query of the
  list speaks about: a parameter that is absent, a number in this sense, or a string in
  which \<open>parseInt\<close> finds no integer at all, the empty string among them. A string that
  starts with an integer and goes on with other text, or that reaches its integer through
  white space or the prefix \<open>0x\<close>, is not among them.\<close>

definition decimalValue :: "jsstring \<Rightarrow> int" where
  "decimalValue s =
     (let digits = (if s \<noteq> [] \<and> (hd s = 0x2B \<or> hd s = 0x2D) then tl s else s);
          magnitude = int (foldl (\<lambda>a c. a * 10 + (unat c - 48)) 0 digits)
      in if s \<noteq> [] \<and> hd s = 0x2D then - magnitude else magnitude)"


subsection \<open>Example data\<close>

text \<open>A runtime for the examples: lower-casing of the letters A to Z, a stand-in for the
  hash, and the cast of a string of 24 characters.\<close>

definition asciiLower :: "jschar \<Rightarrow> jschar" where
  "asciiLower c = (if 0x41 \<le> c \<and> c \<le> 0x5A then c + 0x20 else c)"


definition exampleRuntime :: runtime where
  "exampleRuntime =
     \<lparr>toLowerCase = map asciiLower,
      bcryptHash = (\<lambda>p. js ''$2a$10$'' @ rev p),
      castObjectId = (\<lambda>s. if length s = 24 then Some (map asciiLower s) else None)\<rparr>"

definition exampleNewUser :: "jsstring \<Rightarrow> IUserCreateRequest" where
  "exampleNewUser e =
     \<lparr>body_name = js ''Ana Lima'', body_email = e, body_password = js ''Abcdefg1''\<rparr>"

definition exampleUser :: user_doc where
  "exampleUser =
     \<lparr>createdAt = Some 1000, updatedAt = Some 1000,
      user_id = js ''507f1f77bcf86cd799439011'', name = js ''Ana Lima'',
      email = js ''a@b.com'', password = js ''$2a$10$1gfedcbA''\<rparr>"

definition exampleUsers25 :: user_store where
  "exampleUsers25 = map (\<lambda>i. exampleUser\<lparr>createdAt := Some (int i)\<rparr>) [0..<25]"

section \<open>Properties of the access counter\<close>

text \<open>
  C1. \<open>increment()\<close> is a single transition of the counter store. Where the store holds a
  record, the count of the record the empty filter selects grows by one and its
  \<open>lastUpdated\<close> becomes the current time; where it holds none, a record with count 1
  and fresh time stamps is created. The call returns the count and \<open>lastUpdated\<close> of the
  record after the transition, and never fails.
\<close>

theorem C1_increment:
  "AccessCounterService_incrementAccess now [] =
     (Inr (JObj [(''count'', JNum 1), (''lastUpdated'', JDate now)]),
      [\<lparr>createdAt = Some now, updatedAt = Some now, count = 1, lastUpdated = now\<rparr>])
   \<and> AccessCounterService_incrementAccess now (c # cs) =
     (Inr (JObj [(''count'', JNum (count c + 1)), (''lastUpdated'', JDate now)]),
      c\<lparr>count := count c + 1, lastUpdated := now, updatedAt := Some now\<rparr> # cs)"
  by (simp add: AccessCounterService_incrementAccess_def
      AccessCounter_incrementCounter_def counterResponse_def Let_def)

theorem C1_increment_witness:
  "AccessCounterService_incrementAccess 1000 [] =
     (Inr (JObj [(''count'', JNum 1), (''lastUpdated'', JDate 1000)]),
      [\<lparr>createdAt = Some 1000, updatedAt = Some 1000, count = 1, lastUpdated = 1000\<rparr>])
   \<and> AccessCounterService_incrementAccess 2000
        [\<lparr>createdAt = Some 1000, updatedAt = Some 1000, count = 41, lastUpdated = 1000\<rparr>] =
     (Inr (JObj [(''count'', JNum 42), (''lastUpdated'', JDate 2000)]),
      [\<lparr>createdAt = Some 1000, updatedAt = Some 2000, count = 42, lastUpdated = 2000\<rparr>])"
  using C1_increment [of 1000] C1_increment [of 2000
      "\<lparr>createdAt = Some 1000, updatedAt = Some 1000, count = 41, lastUpdated = 1000\<rparr>" "[]"]
  by simp






text \<open>
  C5. \<open>currentCount()\<close> on a store without a counter record returns a count of 0 with
  the current time and creates nothing; on a store with a record it returns the stored count
  and \<open>lastUpdated\<close> of the record the empty filter selects. The store is the same
  after the call in both cases.
\<close>

theorem C5_currentCount:
  "AccessCounterService_getCurrentCount now [] =
     (Inr (JObj [(''count'', JNum 0), (''lastUpdated'', JDate now)]), [])
   \<and> AccessCounterService_getCurrentCount now (c # cs) =
     (Inr (JObj [(''count'', JNum (count c)), (''lastUpdated'', JDate (lastUpdated c))]),
      c # cs)"
  by (simp add: AccessCounterService_getCurrentCount_def AccessCounter_getCurrentCount_def
      counterResponse_def)

theorem C5_currentCount_witness:
  "AccessCounterService_getCurrentCount 5000 [] =
     (Inr (JObj [(''count'', JNum 0), (''lastUpdated'', JDate 5000)]), [])
   \<and> AccessCounterService_validateIntegrity
        (snd (AccessCounterService_getCurrentCount 5000 []))
   \<and> AccessCounterService_getCurrentCount 5000
        [\<lparr>createdAt = Some 1000, updatedAt = Some 2000, count = 7, lastUpdated = 2000\<rparr>] =
     (Inr (JObj [(''count'', JNum 7), (''lastUpdated'', JDate 2000)]),
      [\<lparr>createdAt = Some 1000, updatedAt = Some 2000, count = 7, lastUpdated = 2000\<rparr>])"
  using C5_currentCount [of 5000
      "\<lparr>createdAt = Some 1000, updatedAt = Some 2000, count = 7, lastUpdated = 2000\<rparr>" "[]"]
  by (simp add: AccessCounterService_validateIntegrity_def)

text \<open>
  C6. A reset request handled while \<open>NODE_ENV\<close> is \<open>production\<close> is answered with
  status 403 and a failure envelope, and the counter store is left as it was. In every other
  mode the request sets the count of the record to 0 and its \<open>lastUpdated\<close> to the
  current time in one transition, creating the record where there is none, and the response
  has status 200 and a success envelope whose \<open>data\<close> field is the count 0 and the
  \<open>lastUpdated\<close> of the record after the transition.
\<close>

theorem C6_reset:
  "(nodeEnv = Some ''production'' \<longrightarrow>
      (\<exists>r. AccessCounterController_resetCounter nodeEnv now ts st = (Inr r, st)
          \<and> status r = 403
          \<and> (''success'', JBool False) \<in> set (case body r of JObj kvs \<Rightarrow> kvs | _ \<Rightarrow> [])))
   \<and> (nodeEnv \<noteq> Some ''production'' \<longrightarrow>
      AccessCounterController_resetCounter nodeEnv now ts st =
        (Inr \<lparr>status = 200, body = JObj
                [(''success'', JBool True),
                 (''message'', JStr (js ''Contador resetado com sucesso'')),
                 (''data'', JObj [(''count'', JNum 0), (''lastUpdated'', JDate now)]),
                 (''timestamp'', JDate ts)]\<rparr>,
         (case st of
            [] \<Rightarrow> [\<lparr>createdAt = Some now, updatedAt = Some now, count = 0, lastUpdated = now\<rparr>]
          | c # cs \<Rightarrow> c\<lparr>count := 0, lastUpdated := now, updatedAt := Some now\<rparr> # cs)))"
  by (cases st)
    (simp_all add: AccessCounterController_resetCounter_def AccessCounterService_resetCounter_def
      AccessCounter_resetCounter_def counterResponse_def Let_def HttpStatus_OK_def
      ApiResponseUtil_success_def
      ApiResponseUtil_forbidden_def ApiResponseUtil_error_def HttpStatus_FORBIDDEN_def
      optField_def)

theorem C6_reset_witness:
  "(\<exists>r. AccessCounterController_resetCounter (Some ''production'') 3000 3001
          [\<lparr>createdAt = Some 1000, updatedAt = Some 2000, count = 7, lastUpdated = 2000\<rparr>] =
        (Inr r, [\<lparr>createdAt = Some 1000, updatedAt = Some 2000, count = 7, lastUpdated = 2000\<rparr>])
      \<and> status r = 403
      \<and> (''success'', JBool False) \<in> set (case body r of JObj kvs \<Rightarrow> kvs | _ \<Rightarrow> []))
   \<and> AccessCounterController_resetCounter (Some ''development'') 3000 3001
        [\<lparr>createdAt = Some 1000, updatedAt = Some 2000, count = 7, lastUpdated = 2000\<rparr>] =
      (Inr \<lparr>status = 200, body = JObj
              [(''success'', JBool True),
               (''message'', JStr (js ''Contador resetado com sucesso'')),
               (''data'', JObj [(''count'', JNum 0), (''lastUpdated'', JDate 3000)]),
               (''timestamp'', JDate 3001)]\<rparr>,
       [\<lparr>createdAt = Some 1000, updatedAt = Some 3000, count = 0, lastUpdated = 3000\<rparr>])
   \<and> AccessCounterController_resetCounter None 3000 3001 [] =
      (Inr \<lparr>status = 200, body = JObj
              [(''success'', JBool True),
               (''message'', JStr (js ''Contador resetado com sucesso'')),
               (''data'', JObj [(''count'', JNum 0), (''lastUpdated'', JDate 3000)]),
               (''timestamp'', JDate 3001)]\<rparr>,
       [\<lparr>createdAt = Some 3000, updatedAt = Some 3000, count = 0, lastUpdated = 3000\<rparr>])"
  using C6_reset [of "Some ''production''" 3000 3001
      "[\<lparr>createdAt = Some 1000, updatedAt = Some 2000, count = 7, lastUpdated = 2000\<rparr>]"]
    C6_reset [of "Some ''development''" 3000 3001
      "[\<lparr>createdAt = Some 1000, updatedAt = Some 2000, count = 7, lastUpdated = 2000\<rparr>]"]
    C6_reset [of None 3000 3001 "[]"]
  by auto

text \<open>
  C8. \<open>validateIntegrity()\<close> answers false where the store holds more than one counter
  record or a record with a negative count, and true in every other state; the empty store
  is among the states it accepts.
\<close>

theorem C8_validateIntegrity:
  "AccessCounterService_validateIntegrity st =
     (\<not> (1 < length st \<or> (\<exists>c \<in> set st. count c < 0)))
   \<and> AccessCounterService_validateIntegrity []"
proof (cases st)
  case Nil
  then show ?thesis by (simp add: AccessCounterService_validateIntegrity_def)
next
  case (Cons c cs)
  then show ?thesis
    by (cases cs) (auto simp add: AccessCounterService_validateIntegrity_def)
qed

theorem C8_validateIntegrity_witness:
  "AccessCounterService_validateIntegrity []
   \<and> AccessCounterService_validateIntegrity
        [\<lparr>createdAt = None, updatedAt = None, count = 0, lastUpdated = 10\<rparr>]
   \<and> \<not> AccessCounterService_validateIntegrity
        [\<lparr>createdAt = None, updatedAt = None, count = - 1, lastUpdated = 10\<rparr>]
   \<and> \<not> AccessCounterService_validateIntegrity
        [\<lparr>createdAt = None, updatedAt = None, count = 1, lastUpdated = 10\<rparr>,
         \<lparr>createdAt = None, updatedAt = None, count = 2, lastUpdated = 20\<rparr>]"
  using C8_validateIntegrity [of "[]"]
    C8_validateIntegrity
      [of "[\<lparr>createdAt = None, updatedAt = None, count = 0, lastUpdated = 10\<rparr>]"]
    C8_validateIntegrity
      [of "[\<lparr>createdAt = None, updatedAt = None, count = - 1, lastUpdated = 10\<rparr>]"]
    C8_validateIntegrity
      [of "[\<lparr>createdAt = None, updatedAt = None, count = 1, lastUpdated = 10\<rparr>,
            \<lparr>createdAt = None, updatedAt = None, count = 2, lastUpdated = 20\<rparr>]"]
  by simp

section \<open>Properties of the user store\<close>

subsection \<open>Evaluation of the examples\<close>

lemma js_Nil_iff: "(js s = []) = (s = [])"
  by (simp add: js_def)

lemmas user_eval_defs =
  UserService_createUser_def User_findByEmail_def User_save_def UserSchema_post_save_def
  UserService_getUserById_def User_findById_def UserService_updateUser_def
  User_findByIdAndUpdate_def UserService_getUserByEmail_def
  exampleNewUser_def exampleUser_def exampleRuntime_def asciiLower_def
  set_email_def set_name_def trim_def truthy_def isWhiteSpace_def js_def
  validate_name_def validate_email_def validate_password_def nameRegex_def isNameChar_def
  emailRegex_def passwordRegex_def lookahead_def isLineTerminator_def
  List.map_filter_def toResponseObject_def optField_def Let_def

lemma example_createUser:
  "UserService_createUser exampleRuntime 1000 (js ''507f1f77bcf86cd799439011'') []
     (exampleNewUser (js ''a@b.com'')) =
   (Inr (toResponseObject exampleUser), [exampleUser])"
  by (simp add: user_eval_defs)

lemma example_createUser_second:
  "UserService_createUser exampleRuntime 2000 (js ''507f1f77bcf86cd799439012'') [exampleUser]
     (exampleNewUser (js ''c@d.com'')) =
   (Inr (toResponseObject
           (exampleUser\<lparr>createdAt := Some 2000, updatedAt := Some 2000,
                         user_id := js ''507f1f77bcf86cd799439012'', email := js ''c@d.com''\<rparr>)),
    [exampleUser,
     exampleUser\<lparr>createdAt := Some 2000, updatedAt := Some 2000,
                   user_id := js ''507f1f77bcf86cd799439012'', email := js ''c@d.com''\<rparr>])"
  by (simp add: user_eval_defs)

lemma example_getUserById:
  "UserService_getUserById exampleRuntime [exampleUser] (js ''507f1f77bcf86cd799439011'') =
   Inr (toResponseObject exampleUser)"
  by (simp add: user_eval_defs)

lemma example_updateUser:
  "UserService_updateUser exampleRuntime 3000 [exampleUser] (js ''507f1f77bcf86cd799439011'')
     (Some (js ''Ana'')) None =
   (Inr (toResponseObject (exampleUser\<lparr>updatedAt := Some 3000, name := js ''Ana''\<rparr>)),
    [exampleUser\<lparr>updatedAt := Some 3000, name := js ''Ana''\<rparr>])"
  by (simp add: user_eval_defs)

lemma example_findByEmail:
  "User_findByEmail exampleRuntime [exampleUser] (js ''A@B.COM'') = Some exampleUser"
  by (simp add: user_eval_defs)

subsection \<open>Responses\<close>

lemma fieldNames_userResponse: "''password'' \<notin> set (fieldNames (toResponseObject u))"
  by (cases "createdAt u"; cases "updatedAt u") (simp_all add: toResponseObject_def optField_def)

lemma fieldNames_success:
  "''password'' \<notin> set (fieldNames d) \<Longrightarrow>
   ''password'' \<notin> set (fieldNames (body (ApiResponseUtil_success ts (Some d) msg code)))"
  by (simp add: ApiResponseUtil_success_def optField_def)

lemma fieldNames_error:
  "''password'' \<notin> set (fieldNames (body (ApiResponseUtil_error ts msg code err)))"
  by (cases err) (simp_all add: ApiResponseUtil_error_def optField_def)



lemma createUser_result:
  "UserService_createUser rt now newId st userData = (Inr d, st') \<Longrightarrow>
   \<exists>u. d = toResponseObject u"
  by (auto simp add: UserService_createUser_def split: option.splits prod.splits sum.splits)

lemma getUserById_result:
  "UserService_getUserById rt st userId = Inr d \<Longrightarrow> \<exists>u. d = toResponseObject u"
  by (auto simp add: UserService_getUserById_def toResponseObject_def
      split: option.splits sum.splits js_error.splits)

lemma updateUser_result:
  "UserService_updateUser rt now st userId updName updEmail = (Inr d, st') \<Longrightarrow>
   \<exists>u. d = toResponseObject u"
  by (auto simp add: UserService_updateUser_def
      split: option.splits prod.splits sum.splits if_splits)

lemma listUsers_result:
  "UserService_listUsers st page limit = Some (Inr d) \<Longrightarrow> ''password'' \<notin> set (fieldNames d)"
  by (auto simp add: UserService_listUsers_def Let_def optField_def
      split: if_splits option.splits)

subsection \<open>Listing\<close>

lemma listUsers_run:
  assumes "1 \<le> page" and "1 \<le> limit"
  shows "UserService_listUsers st page limit =
           Some (Inr (JObj
             [(''users'', JArr (map toResponseObject
                 (take (nat limit) (drop (nat ((page - 1) * limit)) (newestFirst st))))),
              (''pagination'', JObj
                 [(''page'', JNum page),
                  (''limit'', JNum limit),
                  (''total'', JNum (int (length st))),
                  (''pages'', JNum \<lceil>real (length st) / real_of_int limit\<rceil>),
                  (''hasNext'', JBool (page < \<lceil>real (length st) / real_of_int limit\<rceil>)),
                  (''hasPrev'', JBool (page > 1))])]))"
  using assms by (simp add: UserService_listUsers_def Let_def toResponseObject_def)

lemma newestFirst_mset: "mset (newestFirst st) = mset st"
  by (simp add: newestFirst_def)

lemma newestFirst_sorted: "sorted_wrt (\<lambda>a b. createdAt b \<le> createdAt a) (newestFirst st)"
proof -
  have "sorted (map createdAt (sort_key createdAt st))"
    by (rule sorted_sort_key)
  then have "sorted_wrt (\<lambda>a b. createdAt a \<le> createdAt b) (sort_key createdAt st)"
    by (simp add: sorted_map)
  then show ?thesis
    by (simp add: newestFirst_def sorted_wrt_rev)
qed

subsection \<open>Numbers of the runtime\<close>

text \<open>An integer below \<open>2\<^sup>5\<^sup>3\<close> in magnitude is a double and \<open>toNumber\<close> returns it
  unchanged; a larger one is rounded to 53 significant bits and keeps its sign and a
  magnitude of at least \<open>2\<^sup>5\<^sup>3\<close>. The comparisons of the middleware therefore agree
  with those of the integer that was read.\<close>

lemma pow53_lt_pow1024: "(2::nat) ^ 53 < 2 ^ 1024"
  by (rule power_strict_increasing) simp_all

lemma doubleExponent_small: "m < 2 ^ 53 \<Longrightarrow> doubleExponent m = 0"
  by (simp add: doubleExponent.simps)

lemma doubleExponent_large:
  "2 ^ 53 \<le> m \<Longrightarrow> 0 < doubleExponent m \<and> 2 ^ 52 \<le> m div 2 ^ doubleExponent m"
proof (induction m rule: doubleExponent.induct)
  case (1 m)
  show ?case
  proof (cases "m div 2 < 2 ^ 53")
    case True
    have "doubleExponent m = Suc 0"
      using 1(2) True by (simp add: doubleExponent.simps [of m] doubleExponent_small)
    moreover have "2 ^ 52 \<le> m div 2"
      using 1(2) by simp
    ultimately show ?thesis
      by simp
  next
    case False
    then have ih: "2 ^ 52 \<le> (m div 2) div 2 ^ doubleExponent (m div 2)"
      using 1 by simp
    have e: "doubleExponent m = Suc (doubleExponent (m div 2))"
      using 1(2) by (simp add: doubleExponent.simps [of m])
    show ?thesis
      using ih by (simp add: e div_mult2_eq)
  qed
qed

lemma roundMagnitude_small: "m < 2 ^ 53 \<Longrightarrow> roundMagnitude m = m"
  by (simp add: roundMagnitude_def doubleExponent_small)

lemma roundMagnitude_large:
  assumes "2 ^ 53 \<le> m"
  shows "2 ^ 53 \<le> roundMagnitude m"
proof -
  define e where "e = doubleExponent m"
  define q where "q = m div 2 ^ e"
  have e: "0 < e" and q: "2 ^ 52 \<le> q"
    using doubleExponent_large [OF assms] by (simp_all add: e_def q_def)
  from e obtain k where k: "e = Suc k"
    by (cases e) simp_all
  have "(2::nat) * 1 \<le> 2 * 2 ^ k"
    by (intro mult_le_mono) simp_all
  then have two: "(2::nat) \<le> 2 ^ e"
    by (simp add: k)
  have "2 ^ 52 * 2 \<le> q * 2 ^ e"
    using q two by (rule mult_le_mono)
  then have lo: "2 ^ 53 \<le> q * 2 ^ e"
    by simp
  have "q * 2 ^ e \<le> (q + 1) * 2 ^ e"
    by simp
  with lo have lo': "2 ^ 53 \<le> (q + 1) * 2 ^ e"
    by linarith
  have "roundMagnitude m = q * 2 ^ e \<or> roundMagnitude m = (q + 1) * 2 ^ e"
    by (simp add: roundMagnitude_def Let_def e_def q_def)
  with lo lo' show ?thesis
    by auto
qed

lemma toNumber_exact:
  assumes "\<bar>n\<bar> < 2 ^ 53"
  shows "toNumber n = Num n"
proof -
  define m where "m = nat \<bar>n\<bar>"
  have b: "m < 2 ^ 53"
    using assms by (simp add: m_def)
  then have r: "roundMagnitude m = m"
    by (rule roundMagnitude_small)
  from b pow53_lt_pow1024 have big: "\<not> 2 ^ 1024 \<le> m"
    by linarith
  have "toNumber n = Num (if n < 0 then - int m else int m)"
    using big by (simp add: toNumber_def Let_def r flip: m_def)
  also have "(if n < 0 then - int m else int m) = n"
    by (simp add: m_def)
  finally show ?thesis .
qed

lemma toNumber_large:
  assumes "2 ^ 53 \<le> n"
  shows "toNumber n = PosInfinity \<or> (\<exists>v. toNumber n = Num v \<and> 2 ^ 53 \<le> v)"
proof -
  have pos: "0 < n"
    using assms by (smt (verit) zero_less_power)
  have "2 ^ 53 \<le> nat \<bar>n\<bar>"
    using assms pos by (simp add: le_nat_iff)
  then have "2 ^ 53 \<le> roundMagnitude (nat \<bar>n\<bar>)"
    by (rule roundMagnitude_large)
  then have "(2::int) ^ 53 \<le> int (roundMagnitude (nat \<bar>n\<bar>))"
    by (metis of_nat_le_iff of_nat_numeral of_nat_power)
  then show ?thesis
    using pos by (simp add: toNumber_def Let_def)
qed

lemma toNumber_small:
  assumes "n \<le> - (2 ^ 53)"
  shows "toNumber n = NegInfinity \<or> (\<exists>v. toNumber n = Num v \<and> v \<le> - (2 ^ 53))"
proof -
  have neg: "n < 0"
    using assms by (smt (verit) zero_less_power)
  have "2 ^ 53 \<le> nat \<bar>n\<bar>"
    using assms neg by (simp add: le_nat_iff)
  then have "2 ^ 53 \<le> roundMagnitude (nat \<bar>n\<bar>)"
    by (rule roundMagnitude_large)
  then have "(2::int) ^ 53 \<le> int (roundMagnitude (nat \<bar>n\<bar>))"
    by (metis of_nat_le_iff of_nat_numeral of_nat_power)
  then show ?thesis
    using neg by (simp add: toNumber_def Let_def)
qed

lemma toNumber_cases:
  obtains (exact) "toNumber n = Num n" "\<bar>n\<bar> < 2 ^ 53"
  | (large) "2 ^ 53 \<le> n" "toNumber n = PosInfinity"
  | (largeNum) v where "2 ^ 53 \<le> n" "toNumber n = Num v" "2 ^ 53 \<le> v"
  | (small) "n \<le> - (2 ^ 53)" "toNumber n = NegInfinity"
  | (smallNum) v where "n \<le> - (2 ^ 53)" "toNumber n = Num v" "v \<le> - (2 ^ 53)"
proof -
  consider "\<bar>n\<bar> < 2 ^ 53" | "2 ^ 53 \<le> n" | "n \<le> - (2 ^ 53)"
    by linarith
  then show thesis
  proof cases
    case 1
    then show ?thesis using toNumber_exact that(1) by blast
  next
    case 2
    then show ?thesis using toNumber_large [OF 2] that(2,3) by blast
  next
    case 3
    then show ?thesis using toNumber_small [OF 3] that(4,5) by blast
  qed
qed

lemma toNumber_compare:
  "\<not> isNaN (toNumber n)"
  "jsLess (toNumber n) 1 = (n < 1)"
  "jsGreater (toNumber n) 100 = (100 < n)"
  "(toNumber n = Num 0) = (n = 0)"
  by (cases n rule: toNumber_cases; simp add: isNaN_def jsLess_def jsGreater_def)+

subsection \<open>Query parameters\<close>

text \<open>A string of decimal digits, with or without a sign, is read by \<open>parseInt\<close> as
  the integer it denotes.\<close>

lemma digit_not_space: "0x30 \<le> c \<Longrightarrow> c \<le> 0x39 \<Longrightarrow> \<not> isWhiteSpace c"
  by (auto simp add: isWhiteSpace_def word_le_nat_alt)








lemma leadingInteger_examples:
  "leadingInteger (js ''0'') = Some 0" "leadingInteger (js ''2'') = Some 2"
  "leadingInteger (js ''5'') = Some 5" "leadingInteger (js ''101'') = Some 101"
  "leadingInteger (js ''abc'') = None" "leadingInteger (js ''2abc'') = Some 2"
  "leadingInteger (js ''0x64'') = Some 100" "leadingInteger (js ''undefined'') = None"
  "leadingInteger [] = None"
  "leadingInteger (js ''9007199254740993'') = Some 9007199254740993"
  by (simp_all add: leadingInteger_def js_def isWhiteSpace_def digitValue_def Let_def)

lemma toNumber_not_NaN: "toNumber n \<noteq> NaN"
  using toNumber_compare(1) [of n] by (simp add: isNaN_def)

lemma toNumber_examples:
  "toNumber 2 = Num 2" "toNumber 5 = Num 5" "toNumber 100 = Num 100"
  "toNumber 9007199254740993 = Num 9007199254740992"
  by (simp_all add: toNumber_def roundMagnitude_def doubleExponent.simps Let_def)

lemma parseIntOr_eq:
  "parseIntOr v d =
     (case truthy v of
        None \<Rightarrow> Num d
      | Some p \<Rightarrow>
          (case leadingInteger p of
             None \<Rightarrow> Num d
           | Some n \<Rightarrow> if n = 0 then Num d else toNumber n))"
  by (simp add: parseIntOr_def parseInt_def truthy_def leadingInteger_examples
      toNumber_compare toNumber_not_NaN isNaN_def Let_def split: option.splits)

lemma validateQueryParams_eq:
  "validateQueryParams ts query =
     (if (case truthy (query_page query) of
            None \<Rightarrow> False
          | Some p \<Rightarrow> (case leadingInteger p of None \<Rightarrow> True | Some n \<Rightarrow> n < 1))
      then Some (ApiResponseUtil_badRequest ts
                  (''Par'' @ [CHR 0xE2] @ ''metro page deve ser um n'' @ u_acute
                   @ ''mero positivo'') None)
      else if (case truthy (query_limit query) of
                 None \<Rightarrow> False
               | Some l \<Rightarrow> (case leadingInteger l of None \<Rightarrow> True | Some n \<Rightarrow> n < 1 \<or> 100 < n))
      then Some (ApiResponseUtil_badRequest ts
                   (''Par'' @ [CHR 0xE2] @ ''metro limit deve ser um n'' @ u_acute
                    @ ''mero entre 1 e 100'') None)
      else None)"
  by (simp add: validateQueryParams_def parseInt_def toNumber_compare toNumber_not_NaN
      isNaN_def Let_def split: option.splits)

lemma ceiling_one_tenth: "\<lceil>1 / 10 :: real\<rceil> = 1"
  by (rule ceiling_unique) simp_all

lemma example_listUsers:
  "userRoutes_listUsers 5000 [exampleUser] \<lparr>query_page = None, query_limit = None\<rparr> =
   Some (Inr (ApiResponseUtil_success 5000
     (Some (JObj [(''users'', JArr [toResponseObject exampleUser]),
                  (''pagination'', JObj
                     [(''page'', JNum 1), (''limit'', JNum 10), (''total'', JNum 1),
                      (''pages'', JNum 1), (''hasNext'', JBool False),
                      (''hasPrev'', JBool False)])]))
     (''Usu'' @ a_acute @ ''rios listados com sucesso'') 200))"
  by (simp add: userRoutes_listUsers_def validateQueryParams_eq UserController_listUsers_def
      parseIntOr_eq truthy_def listUsers_run newestFirst_def HttpStatus_OK_def
      ceiling_one_tenth)

subsection \<open>The claims on the user store\<close>

text \<open>
  C3. Whatever the store holds and whatever the request, a response sent by the handlers
  that produce users (creation, lookup by identifier, the paginated list behind its query
  validation, update, and the search by email) has no field named \<open>password\<close> at any
  depth of its body.
\<close>

theorem C3_no_password:
  "(\<forall>r st'. UserController_createUser rt now newId ts st userData = (Inr r, st')
        \<longrightarrow> ''password'' \<notin> set (fieldNames (body r)))
   \<and> (\<forall>r. UserController_getUserById rt ts st userId = Inr r
        \<longrightarrow> ''password'' \<notin> set (fieldNames (body r)))
   \<and> (\<forall>r. userRoutes_listUsers ts st query = Some (Inr r)
        \<longrightarrow> ''password'' \<notin> set (fieldNames (body r)))
   \<and> (\<forall>r st'. UserController_updateUser rt now ts st userId updName updEmail = (Inr r, st')
        \<longrightarrow> ''password'' \<notin> set (fieldNames (body r)))
   \<and> (\<forall>r. UserController_getUserByEmail rt ts st email' = Inr r
        \<longrightarrow> ''password'' \<notin> set (fieldNames (body r)))"
proof (intro conjI allI impI)
  fix r st'
  assume "UserController_createUser rt now newId ts st userData = (Inr r, st')"
  then show "''password'' \<notin> set (fieldNames (body r))"
    by (auto simp add: UserController_createUser_def ApiResponseUtil_created_def
        split: prod.splits sum.splits
        dest!: createUser_result intro!: fieldNames_success fieldNames_userResponse)
next
  fix r
  assume "UserController_getUserById rt ts st userId = Inr r"
  then show "''password'' \<notin> set (fieldNames (body r))"
    by (auto simp add: UserController_getUserById_def split: sum.splits
        dest!: getUserById_result intro!: fieldNames_success fieldNames_userResponse)
next
  fix r
  assume "userRoutes_listUsers ts st query = Some (Inr r)"
  then show "''password'' \<notin> set (fieldNames (body r))"
    by (auto simp add: userRoutes_listUsers_def validateQueryParams_eq
        ApiResponseUtil_badRequest_def UserController_listUsers_def Let_def
        split: if_splits option.splits sum.splits jsnum.splits
        dest!: listUsers_result intro!: fieldNames_success fieldNames_error)
next
  fix r st'
  assume "UserController_updateUser rt now ts st userId updName updEmail = (Inr r, st')"
  then show "''password'' \<notin> set (fieldNames (body r))"
    by (auto simp add: UserController_updateUser_def split: prod.splits sum.splits
        dest!: updateUser_result intro!: fieldNames_success fieldNames_userResponse)
next
  fix r
  assume "UserController_getUserByEmail rt ts st email' = Inr r"
  then show "''password'' \<notin> set (fieldNames (body r))"
    by (auto simp add: UserController_getUserByEmail_def UserService_getUserByEmail_def
        ApiResponseUtil_badRequest_def ApiResponseUtil_notFound_def
        split: option.splits sum.splits
        intro!: fieldNames_success fieldNames_error fieldNames_userResponse)
qed

theorem C3_no_password_witness:
  "(\<exists>r st'. UserController_createUser exampleRuntime 2000 (js ''507f1f77bcf86cd799439012'') 2001
               [exampleUser] (exampleNewUser (js ''c@d.com'')) = (Inr r, st')
        \<and> status r = 201 \<and> ''password'' \<notin> set (fieldNames (body r)))
   \<and> (\<exists>r. UserController_getUserById exampleRuntime 5000 [exampleUser]
               (js ''507f1f77bcf86cd799439011'') = Inr r
        \<and> status r = 200 \<and> ''password'' \<notin> set (fieldNames (body r)))
   \<and> (\<exists>r. userRoutes_listUsers 5000 [exampleUser] \<lparr>query_page = None, query_limit = None\<rparr>
               = Some (Inr r)
        \<and> status r = 200 \<and> ''password'' \<notin> set (fieldNames (body r)))
   \<and> (\<exists>r st'. UserController_updateUser exampleRuntime 3000 3001 [exampleUser]
               (js ''507f1f77bcf86cd799439011'') (Some (js ''Ana'')) None = (Inr r, st')
        \<and> status r = 200 \<and> ''password'' \<notin> set (fieldNames (body r)))
   \<and> (\<exists>r. UserController_getUserByEmail exampleRuntime 5000 [exampleUser]
               (Some (js ''A@B.COM'')) = Inr r
        \<and> status r = 200 \<and> ''password'' \<notin> set (fieldNames (body r)))"
proof -
  note claim = C3_no_password [where rt = exampleRuntime and st = "[exampleUser]"
      and now = now and newId = "js ''507f1f77bcf86cd799439012''"
      and userData = "exampleNewUser (js ''c@d.com'')"
      and userId = "js ''507f1f77bcf86cd799439011''"
      and query = "\<lparr>query_page = None, query_limit = None\<rparr>"
      and updName = "Some (js ''Ana'')" and updEmail = None
      and email' = "Some (js ''A@B.COM'')" for now]
  have c: "\<exists>r st'. UserController_createUser exampleRuntime 2000
               (js ''507f1f77bcf86cd799439012'') 2001
               [exampleUser] (exampleNewUser (js ''c@d.com'')) = (Inr r, st') \<and> status r = 201"
    by (simp add: UserController_createUser_def example_createUser_second
        ApiResponseUtil_created_def ApiResponseUtil_success_def HttpStatus_CREATED_def)
  have g: "\<exists>r. UserController_getUserById exampleRuntime 5000 [exampleUser]
               (js ''507f1f77bcf86cd799439011'') = Inr r \<and> status r = 200"
    by (simp add: UserController_getUserById_def example_getUserById
        ApiResponseUtil_success_def HttpStatus_OK_def)
  have l: "\<exists>r. userRoutes_listUsers 5000 [exampleUser]
               \<lparr>query_page = None, query_limit = None\<rparr> = Some (Inr r) \<and> status r = 200"
    by (simp add: example_listUsers ApiResponseUtil_success_def)
  have u: "\<exists>r st'. UserController_updateUser exampleRuntime 3000 3001 [exampleUser]
               (js ''507f1f77bcf86cd799439011'') (Some (js ''Ana'')) None = (Inr r, st')
             \<and> status r = 200"
    by (simp add: UserController_updateUser_def example_updateUser
        ApiResponseUtil_success_def HttpStatus_OK_def)
  have e: "\<exists>r. UserController_getUserByEmail exampleRuntime 5000 [exampleUser]
               (Some (js ''A@B.COM'')) = Inr r \<and> status r = 200"
    by (simp add: UserController_getUserByEmail_def UserService_getUserByEmail_def
        example_findByEmail truthy_def js_Nil_iff ApiResponseUtil_success_def HttpStatus_OK_def)
  from c obtain rc sc where rc: "UserController_createUser exampleRuntime 2000
      (js ''507f1f77bcf86cd799439012'') 2001 [exampleUser] (exampleNewUser (js ''c@d.com''))
      = (Inr rc, sc)" "status rc = 201"
    by blast
  from g obtain rg where rg: "UserController_getUserById exampleRuntime 5000 [exampleUser]
      (js ''507f1f77bcf86cd799439011'') = Inr rg" "status rg = 200"
    by blast
  from l obtain rl where rl: "userRoutes_listUsers 5000 [exampleUser]
      \<lparr>query_page = None, query_limit = None\<rparr> = Some (Inr rl)" "status rl = 200"
    by blast
  from u obtain ru su where ru: "UserController_updateUser exampleRuntime 3000 3001
      [exampleUser] (js ''507f1f77bcf86cd799439011'') (Some (js ''Ana'')) None = (Inr ru, su)"
      "status ru = 200"
    by blast
  from e obtain re where re: "UserController_getUserByEmail exampleRuntime 5000 [exampleUser]
      (Some (js ''A@B.COM'')) = Inr re" "status re = 200"
    by blast
  have pc: "''password'' \<notin> set (fieldNames (body rc))"
    using claim [of 2000 2001] rc(1) by simp
  have pg: "''password'' \<notin> set (fieldNames (body rg))"
    using claim [of 3000 5000] rg(1) by simp
  have pl: "''password'' \<notin> set (fieldNames (body rl))"
    using claim [of 3000 5000] rl(1) by simp
  have pu: "''password'' \<notin> set (fieldNames (body ru))"
    using claim [of 3000 3001] ru(1) by simp
  have pe: "''password'' \<notin> set (fieldNames (body re))"
    using claim [of 3000 5000] re(1) by simp
  show ?thesis
    using rc rg rl ru re pc pg pl pu pe by simp
qed

text \<open>
  C4. Where the store holds a user whose email is the lower-cased, trimmed form of the
  email of a creation request, \<open>create\<close> fails with an error of status 409 and the store
  is left as it was. What is taken from the runtime is that lower-casing leaves this
  lower-cased and trimmed form unchanged, which holds of the case mapping of JavaScript.
  The example creates a user with \<open>a@b.com\<close> and then requests \<open>A@B.COM\<close>.
\<close>

theorem C4_create_conflict:
  assumes "toLowerCase rt (trim (toLowerCase rt (body_email userData)))
             = trim (toLowerCase rt (body_email userData))"
    and "\<exists>u \<in> set st. email u = trim (toLowerCase rt (body_email userData))"
  shows "\<exists>e. UserService_createUser rt now newId st userData = (Inl e, st)
              \<and> statusCode e = 409"
proof -
  have "set_email rt (toLowerCase rt (body_email userData))
          = trim (toLowerCase rt (body_email userData))"
    using assms(1) by (simp add: set_email_def)
  with assms(2)
  have "find (\<lambda>u. email u = set_email rt (toLowerCase rt (body_email userData))) st \<noteq> None"
    by (auto simp add: find_None_iff)
  then obtain u where "User_findByEmail rt st (body_email userData) = Some u"
    by (auto simp add: User_findByEmail_def)
  then show ?thesis
    by (simp add: UserService_createUser_def AppError_def)
qed

theorem C4_create_conflict_witness:
  "UserService_createUser exampleRuntime 1000 (js ''507f1f77bcf86cd799439011'') []
       (exampleNewUser (js ''a@b.com'')) = (Inr (toResponseObject exampleUser), [exampleUser])
   \<and> toLowerCase exampleRuntime (trim (toLowerCase exampleRuntime (js ''A@B.COM'')))
       = trim (toLowerCase exampleRuntime (js ''A@B.COM''))
   \<and> (\<exists>u \<in> set [exampleUser]. email u = trim (toLowerCase exampleRuntime (js ''A@B.COM'')))
   \<and> (\<exists>e. UserService_createUser exampleRuntime 2000 (js ''507f1f77bcf86cd799439012'')
             [exampleUser] (exampleNewUser (js ''A@B.COM'')) = (Inl e, [exampleUser])
          \<and> statusCode e = 409)"
proof -
  have h1: "toLowerCase exampleRuntime
              (trim (toLowerCase exampleRuntime (body_email (exampleNewUser (js ''A@B.COM'')))))
            = trim (toLowerCase exampleRuntime (body_email (exampleNewUser (js ''A@B.COM''))))"
    by (simp add: user_eval_defs)
  have h2: "\<exists>u \<in> set [exampleUser].
              email u = trim (toLowerCase exampleRuntime (body_email (exampleNewUser (js ''A@B.COM''))))"
    by (simp add: user_eval_defs)
  have b: "body_email (exampleNewUser (js ''A@B.COM'')) = js ''A@B.COM''"
    by (simp add: exampleNewUser_def)
  show ?thesis
    using C4_create_conflict [OF h1 h2, of 2000 "js ''507f1f77bcf86cd799439012''"]
      h1 h2 example_createUser
    by (simp add: b)
qed

text \<open>
  C7. For a page of at least 1 and a limit from 1 to 100, \<open>list(page, limit)\<close> returns
  the users sorted newest first, without the first \<open>(page - 1) * limit\<close> of them and cut
  after \<open>limit\<close>, each as its response object; the sorted list holds exactly the records
  of the store. The pagination reports the page, the limit, the total, the number of
  pages as the ceiling of total by limit, \<open>hasNext\<close> as page below pages and \<open>hasPrev\<close>
  as page above 1. With 25 users, page 3 and limit 10 this gives 5 users, 3 pages, no next
  page and a previous page.
\<close>

theorem C7_listUsers:
  assumes "1 \<le> page" and "1 \<le> limit" and "limit \<le> 100"
  shows "UserService_listUsers st page limit =
           Some (Inr (JObj
             [(''users'', JArr (map toResponseObject
                 (take (nat limit) (drop (nat ((page - 1) * limit)) (newestFirst st))))),
              (''pagination'', JObj
                 [(''page'', JNum page),
                  (''limit'', JNum limit),
                  (''total'', JNum (int (length st))),
                  (''pages'', JNum \<lceil>real (length st) / real_of_int limit\<rceil>),
                  (''hasNext'', JBool (page < \<lceil>real (length st) / real_of_int limit\<rceil>)),
                  (''hasPrev'', JBool (page > 1))])]))
         \<and> mset (newestFirst st) = mset st
         \<and> sorted_wrt (\<lambda>a b. createdAt b \<le> createdAt a) (newestFirst st)
         \<and> length (take (nat limit) (drop (nat ((page - 1) * limit)) (newestFirst st)))
             = min (nat limit) (length st - nat ((page - 1) * limit))
         \<and> (length st = 25 \<and> page = 3 \<and> limit = 10 \<longrightarrow>
              length (take (nat limit) (drop (nat ((page - 1) * limit)) (newestFirst st))) = 5
              \<and> \<lceil>real (length st) / real_of_int limit\<rceil> = 3
              \<and> \<not> page < \<lceil>real (length st) / real_of_int limit\<rceil> \<and> page > 1)"
proof -
  have len: "length (newestFirst st) = length st"
    by (simp add: newestFirst_def)
  have cnt: "length (take (nat limit) (drop (nat ((page - 1) * limit)) (newestFirst st)))
             = min (nat limit) (length st - nat ((page - 1) * limit))"
    by (simp add: len min.commute)
  have ex: "length st = 25 \<and> page = 3 \<and> limit = 10 \<longrightarrow>
              length (take (nat limit) (drop (nat ((page - 1) * limit)) (newestFirst st))) = 5
              \<and> \<lceil>real (length st) / real_of_int limit\<rceil> = 3
              \<and> \<not> page < \<lceil>real (length st) / real_of_int limit\<rceil> \<and> page > 1"
    by (auto simp add: len)
  show ?thesis
    using listUsers_run [OF assms(1) assms(2), of st] cnt ex newestFirst_mset newestFirst_sorted
    by blast
qed

theorem C7_listUsers_witness:
  "(1::int) \<le> 3 \<and> (1::int) \<le> 10 \<and> (10::int) \<le> 100
   \<and> length exampleUsers25 = 25
   \<and> UserService_listUsers exampleUsers25 3 10 =
           Some (Inr (JObj
             [(''users'', JArr (map toResponseObject
                 (take 10 (drop 20 (newestFirst exampleUsers25))))),
              (''pagination'', JObj
                 [(''page'', JNum 3), (''limit'', JNum 10), (''total'', JNum 25),
                  (''pages'', JNum 3), (''hasNext'', JBool False), (''hasPrev'', JBool True)])]))
   \<and> length (take 10 (drop 20 (newestFirst exampleUsers25))) = 5"
proof -
  have n: "length exampleUsers25 = 25"
    by (simp add: exampleUsers25_def)
  show ?thesis
    using C7_listUsers [of 3 10 exampleUsers25] n
    by simp
qed

section \<open>Properties of the validation\<close>

subsection \<open>Trimming\<close>

lemma dropWhile_rev_keep:
  assumes "dropWhile P t = t"
  shows "dropWhile P (rev (dropWhile P (rev t))) = rev (dropWhile P (rev t))"
proof (cases t)
  case Nil
  then show ?thesis by simp
next
  case (Cons x xs)
  with assms have nx: "\<not> P x"
    by (auto split: if_splits) (metis dropWhile_eq_Cons_conv)
  have "\<exists>ys. dropWhile P (rev xs @ [x]) = ys @ [x]"
    using nx by (auto simp add: dropWhile_append)
  then obtain ys where ys: "dropWhile P (rev xs @ [x]) = ys @ [x]"
    by blast
  show ?thesis
    using ys nx Cons by simp
qed

lemma trim_idem: "trim (trim s) = trim s"
proof -
  let ?t = "dropWhile isWhiteSpace s"
  have "dropWhile isWhiteSpace ?t = ?t"
    by simp
  then have "dropWhile isWhiteSpace (rev (dropWhile isWhiteSpace (rev ?t)))
               = rev (dropWhile isWhiteSpace (rev ?t))"
    by (rule dropWhile_rev_keep)
  then show ?thesis
    by (simp add: trim_def)
qed

lemma set_trim: "set (trim s) \<subseteq> set s"
  by (auto simp: trim_def dest!: set_dropWhileD)

subsection \<open>The name rule\<close>

lemma nameChar_plain:
  assumes "isNameChar c"
  shows "\<not> (0xD800 \<le> c \<and> c \<le> 0xDBFF)" and "c \<noteq> 0xFE0F" and "c \<noteq> 0xFE0E"
  using assms by (auto simp: isNameChar_def isWhiteSpace_def word_le_nat_alt)

lemma surrogatePairs_name: "list_all isNameChar v \<Longrightarrow> surrogatePairs v = 0"
  by (induction v rule: surrogatePairs.induct) (auto dest: nameChar_plain)

lemma presentation_name:
  "list_all isNameChar v \<Longrightarrow> filter (\<lambda>c. c = 0xFE0F \<or> c = 0xFE0E) v = []"
  by (induction v) (auto dest: nameChar_plain)

lemma isLength_name:
  "nameRegex v \<Longrightarrow> isLength a b v = (a \<le> length v \<and> length v \<le> b)"
  by (simp add: isLength_def nameRegex_def surrogatePairs_name presentation_name Let_def)

lemma nameAccepted_iff:
  "nameAccepted input =
     (2 \<le> length (trim input) \<and> length (trim input) \<le> 100
      \<and> list_all isNameChar (trim input))"
proof (cases "nameRegex (trim input)")
  case True
  then show ?thesis
    by (auto simp add: nameAccepted_def validateUserCreation_name_def trim_idem Let_def
        isLength_name nameRegex_def)
next
  case False
  then show ?thesis
    by (auto simp add: nameAccepted_def validateUserCreation_name_def trim_idem Let_def
        nameRegex_def)
qed

lemma validate_name_iff:
  "(validate_name (set_name input) = None) =
     (2 \<le> length (trim input) \<and> length (trim input) \<le> 100
      \<and> list_all isNameChar (trim input))"
  by (auto simp add: validate_name_def set_name_def nameRegex_def)

lemma nameChar_letters:
  "c \<noteq> 0xD7 \<Longrightarrow> c \<noteq> 0xF7 \<Longrightarrow>
   isNameChar c = (isAsciiLetter c \<or> isLatin1Letter c \<or> isWhiteSpace c)"
  by (auto simp add: isNameChar_def isAsciiLetter_def isLatin1Letter_def)

lemmas name_eval_defs =
  trim_def isWhiteSpace_def isNameChar_def isAsciiLetter_def isLatin1Letter_def
  spec_nameRule_def spec_isLetter_def js_def Let_def

text \<open>The multiplication sign lies in the range of the pattern: the name \<open>a\<close>, U+00D7,
  \<open>b\<close> is accepted although the sign is neither a letter nor a space.\<close>

lemma nameAccepted_times_sign:
  "nameAccepted [0x61, 0xD7, 0x62]
   \<and> \<not> isAsciiLetter 0xD7 \<and> \<not> isLatin1Letter 0xD7 \<and> \<not> isWhiteSpace 0xD7"
  by (simp add: nameAccepted_iff name_eval_defs)

text \<open>
  C9, as stated: the name of five letters Z with caron, \<open>i\<close>, z with caron, \<open>e\<close>, \<open>k\<close>
  (U+017D, U+0069, U+017E, U+0065, U+006B) consists only of letters, two of them accented,
  and has a length within the bounds, yet the validation rejects it: the pattern stops
  at U+00FF.
\<close>

theorem C9_name_rule_counterexample:
  "spec_nameRule [0x17D, 0x69, 0x17E, 0x65, 0x6B]
   \<and> \<not> nameAccepted [0x17D, 0x69, 0x17E, 0x65, 0x6B]"
  by (simp add: nameAccepted_iff name_eval_defs)

text \<open>
  C9, amended. For an input without multiplication and division sign, the name is accepted
  by the validation of user creation exactly if, after trimming, it has 2 to 100 code units
  and each of them is a letter \<open>a\<close> to \<open>z\<close> or \<open>A\<close> to \<open>Z\<close>, a letter of the
  range U+00C0 to U+00FF, or a white-space character; and the validators of the schema
  path \<open>name\<close> accept exactly the names the validation of the route accepts. The names
  \<open>John123\<close> and \<open>Jos\<close>, U+00E9, space, U+00C1, \<open>lvares\<close> are the examples.
\<close>

theorem C9_name_rule_amended:
  assumes "0xD7 \<notin> set input" and "0xF7 \<notin> set input"
  shows "nameAccepted input =
           (let t = trim input
            in 2 \<le> length t \<and> length t \<le> 100
               \<and> list_all (\<lambda>c. isAsciiLetter c \<or> isLatin1Letter c \<or> isWhiteSpace c) t)
         \<and> (validate_name (set_name input) = None) = nameAccepted input"
proof -
  have "\<forall>c \<in> set (trim input). c \<noteq> 0xD7 \<and> c \<noteq> 0xF7"
    using assms set_trim by fastforce
  then have "list_all isNameChar (trim input) =
      list_all (\<lambda>c. isAsciiLetter c \<or> isLatin1Letter c \<or> isWhiteSpace c) (trim input)"
    by (auto simp add: list_all_iff nameChar_letters)
  then show ?thesis
    by (simp add: nameAccepted_iff validate_name_iff Let_def)
qed

theorem C9_name_rule_amended_witness:
  "0xD7 \<notin> set (js ''John123'') \<and> 0xF7 \<notin> set (js ''John123'')
   \<and> \<not> nameAccepted (js ''John123'')
   \<and> 0xD7 \<notin> set (js (''Jos'' @ e_acute @ '' '' @ [CHR 0xC1] @ ''lvares''))
   \<and> 0xF7 \<notin> set (js (''Jos'' @ e_acute @ '' '' @ [CHR 0xC1] @ ''lvares''))
   \<and> nameAccepted (js (''Jos'' @ e_acute @ '' '' @ [CHR 0xC1] @ ''lvares''))
   \<and> validate_name (set_name (js (''Jos'' @ e_acute @ '' '' @ [CHR 0xC1] @ ''lvares''))) = None"
  using C9_name_rule_amended [of "js ''John123''"]
    C9_name_rule_amended [of "js (''Jos'' @ e_acute @ '' '' @ [CHR 0xC1] @ ''lvares'')"]
  by (simp add: name_eval_defs)

subsection \<open>The query parameters of the list\<close>





text \<open>
  What the guards of the middleware let through. \<open>parseInt\<close> stops at the first
  character that is no digit and reads the prefix \<open>0x\<close> as hexadecimal, so the page
  parameter \<open>2abc\<close> and the limit parameter \<open>0x64\<close>, neither of them a number, are
  answered with page 2 and limit 100.
\<close>

lemma listUsers_lenient_parameters:
  "\<not> spec_isNumber (js ''2abc'') \<and> \<not> spec_isNumber (js ''0x64'')
   \<and> userRoutes_listUsers 0 []
        \<lparr>query_page = Some (js ''2abc''), query_limit = Some (js ''0x64'')\<rparr> =
       Some (Inr \<lparr>status = 200, body = JObj
         [(''success'', JBool True),
          (''message'', JStr (js (''Usu'' @ a_acute @ ''rios listados com sucesso''))),
          (''data'', JObj [(''users'', JArr []),
                      (''pagination'', JObj
                         [(''page'', JNum 2), (''limit'', JNum 100), (''total'', JNum 0),
                          (''pages'', JNum 0), (''hasNext'', JBool False),
                          (''hasPrev'', JBool True)])]),
          (''timestamp'', JDate 0)]\<rparr>)"
  by (simp add: spec_isNumber_def userRoutes_listUsers_def validateQueryParams_eq truthy_def
      UserController_listUsers_def parseIntOr_eq listUsers_run newestFirst_def
      leadingInteger_examples toNumber_examples js_Nil_iff HttpStatus_OK_def
      ApiResponseUtil_success_def optField_def)
    (simp add: js_def)

text \<open>
  The page is a double. The page parameter \<open>9007199254740993\<close>, which is
  \<open>2\<^sup>5\<^sup>3 + 1\<close>, passes the middleware and is answered with the page
  \<open>9007199254740992\<close>, the double nearest to it.
\<close>

lemma listUsers_rounded_page:
  "spec_isNumber (js ''9007199254740993'')
   \<and> decimalValue (js ''9007199254740993'') = 9007199254740993
   \<and> userRoutes_listUsers 0 []
        \<lparr>query_page = Some (js ''9007199254740993''), query_limit = None\<rparr> =
       Some (Inr \<lparr>status = 200, body = JObj
         [(''success'', JBool True),
          (''message'', JStr (js (''Usu'' @ a_acute @ ''rios listados com sucesso''))),
          (''data'', JObj [(''users'', JArr []),
                      (''pagination'', JObj
                         [(''page'', JNum 9007199254740992), (''limit'', JNum 10),
                          (''total'', JNum 0),
                          (''pages'', JNum 0), (''hasNext'', JBool False),
                          (''hasPrev'', JBool True)])]),
          (''timestamp'', JDate 0)]\<rparr>)"
  by (simp add: userRoutes_listUsers_def validateQueryParams_eq truthy_def
      UserController_listUsers_def parseIntOr_eq listUsers_run newestFirst_def
      leadingInteger_examples toNumber_examples js_Nil_iff HttpStatus_OK_def
      ApiResponseUtil_success_def optField_def)
    (simp add: js_def spec_isNumber_def decimalValue_def)




end
